theory Spec2Isabelle
  imports Complex_Main "HOL-Library.Sublist" "HOL-Library.AList"
begin

section \<open>Host-language primitives\<close>

text \<open>
  The program is TypeScript running on a JavaScript engine. Strings are modelled as
  \<open>string\<close> (lists of 8-bit characters); the case mapping and the character classes
  below are those of the ASCII range, every other character is left unchanged by
  \<open>toLowerCase\<close> and belongs to no class.
\<close>

subsection \<open>Strings\<close>

definition lower_char :: "char \<Rightarrow> char" where
  "lower_char c =
     (let n = (of_char c :: nat) in if 65 \<le> n \<and> n \<le> 90 then char_of (n + 32) else c)"

definition toLowerCase :: "string \<Rightarrow> string" where
  "toLowerCase s = map lower_char s"

text \<open>\<open>s.includes(p)\<close>: \<open>p\<close> occurs in \<open>s\<close> as a contiguous substring.\<close>

fun str_includes :: "string \<Rightarrow> string \<Rightarrow> bool" where
  "str_includes [] p = (p = [])"
| "str_includes (c # cs) p = (prefix p (c # cs) \<or> str_includes cs p)"

text \<open>The regular-expression classes \<open>\s\<close> and \<open>\w\<close> on ASCII.\<close>

definition is_space :: "char \<Rightarrow> bool" where
  "is_space c = ((of_char c :: nat) \<in> {9, 10, 11, 12, 13, 32})"

definition is_digit :: "char \<Rightarrow> bool" where
  "is_digit c = (let n = (of_char c :: nat) in 48 \<le> n \<and> n \<le> 57)"

definition is_word :: "char \<Rightarrow> bool" where
  "is_word c =
     (let n = (of_char c :: nat)
      in (48 \<le> n \<and> n \<le> 57) \<or> (65 \<le> n \<and> n \<le> 90) \<or> n = 95 \<or> (97 \<le> n \<and> n \<le> 122))"

subsection \<open>Numbers\<close>

text \<open>
  A JavaScript number is an IEEE-754 double: a finite value (a rational), one of the two
  infinities, or NaN. Negative zero is identified with zero: the program reads numbers
  only through \<open>String\<close>, \<open>||\<close>, \<open>+\<close>, \<open>/\<close>, \<open>*\<close>, \<open>Math.max\<close>, \<open>Math.min\<close> and
  \<open>Math.round\<close> applied to values that are never a negative zero where it would show.
\<close>

datatype jsnum = NaN | PInf | NInf | Fin rat

text \<open>
  What the engine and its environment decide is a parameter of the model:
  \<^item> \<open>localTZA\<close>: the offset of local time from UTC, in milliseconds, in force at a
    time value;
  \<^item> \<open>parse_other\<close>: \<open>Date.parse\<close> on a string that is not a date-only ISO form (the
    language standard leaves those to the implementation); \<open>None\<close> is NaN;
  \<^item> \<open>collate\<close>: the sign of \<open>a.localeCompare(b)\<close>;
  \<^item> \<open>rnd\<close>: rounding of an exact result to the nearest double;
  \<^item> \<open>num_str\<close>: \<open>String\<close> of a finite number that is not an integer below \<open>10^21\<close>;
  \<^item> \<open>fun_str\<close>: \<open>String\<close> of a built-in function, by its name.
\<close>

record host =
  localTZA :: "int \<Rightarrow> int"
  parse_other :: "string \<Rightarrow> int option"
  collate :: "string \<Rightarrow> string \<Rightarrow> int"
  rnd :: "rat \<Rightarrow> jsnum"
  num_str :: "rat \<Rightarrow> string"
  fun_str :: "string \<Rightarrow> string"

text \<open>
  Every integer of magnitude at most \<open>2^53\<close> is a double, so rounding leaves it as it
  is; any other exact result is rounded by the host.
\<close>

definition is_int_rat :: "rat \<Rightarrow> bool" where
  "is_int_rat q = (q = of_int \<lfloor>q\<rfloor>)"

definition fl :: "host \<Rightarrow> rat \<Rightarrow> jsnum" where
  "fl h q = (if is_int_rat q \<and> \<bar>q\<bar> \<le> 9007199254740992 then Fin q else rnd h q)"

text \<open>
  In every engine the rounding is that of IEEE 754 binary64: to the nearest number with a
  significand \<open>r\<close> of 53 bits and an exponent \<open>e\<close> of at least \<open>-1074\<close>, a tie going to the
  even significand, and to an infinity when the rounded value \<open>r * 2^e\<close> reaches \<open>2^1024\<close>,
  which is when \<open>e\<close> exceeds 971 or is 971 with \<open>r\<close> rounded up to \<open>2^53\<close>. \<open>ilog2 q\<close> is the
  exponent of a positive \<open>q\<close>, the \<open>e\<close> with \<open>2^e \<le> q < 2^(e+1)\<close>, found from the bit lengths
  of the numerator and the denominator. The statements that depend on how results are
  rounded take \<open>rnd\<close> to be this function.
\<close>

function bit_length :: "int \<Rightarrow> nat" where
  "bit_length n = (if n \<le> 0 then 0 else Suc (bit_length (n div 2)))"
  by pat_completeness auto
termination by (relation "measure nat") auto

declare bit_length.simps [simp del]

definition ilog2 :: "rat \<Rightarrow> int" where
  "ilog2 q =
     (let (a, b) = quotient_of q;
          d = int (bit_length a) - int (bit_length b)
      in if 2 powi d \<le> q then d else d - 1)"



fun num_add :: "host \<Rightarrow> jsnum \<Rightarrow> jsnum \<Rightarrow> jsnum" where
  "num_add h NaN b = NaN"
| "num_add h a NaN = NaN"
| "num_add h PInf NInf = NaN"
| "num_add h NInf PInf = NaN"
| "num_add h PInf b = PInf"
| "num_add h NInf b = NInf"
| "num_add h a PInf = PInf"
| "num_add h a NInf = NInf"
| "num_add h (Fin a) (Fin b) = fl h (a + b)"

definition inf_of_sign :: "bool \<Rightarrow> jsnum" where
  "inf_of_sign neg = (if neg then NInf else PInf)"

fun num_mul :: "host \<Rightarrow> jsnum \<Rightarrow> jsnum \<Rightarrow> jsnum" where
  "num_mul h NaN b = NaN"
| "num_mul h a NaN = NaN"
| "num_mul h (Fin a) (Fin b) = fl h (a * b)"
| "num_mul h (Fin a) b = (if a = 0 then NaN else inf_of_sign ((a < 0) \<noteq> (b = NInf)))"
| "num_mul h a (Fin b) = (if b = 0 then NaN else inf_of_sign ((b < 0) \<noteq> (a = NInf)))"
| "num_mul h a b = inf_of_sign ((a = NInf) \<noteq> (b = NInf))"

fun num_div :: "host \<Rightarrow> jsnum \<Rightarrow> jsnum \<Rightarrow> jsnum" where
  "num_div h NaN b = NaN"
| "num_div h a NaN = NaN"
| "num_div h (Fin a) (Fin b) =
     (if b = 0 then (if a = 0 then NaN else inf_of_sign (a < 0)) else fl h (a / b))"
| "num_div h (Fin a) b = Fin 0"
| "num_div h a (Fin b) = inf_of_sign ((a = NInf) \<noteq> (b < 0))"
| "num_div h a b = NaN"

text \<open>\<open>Math.max\<close> and \<open>Math.min\<close> of two arguments, and of a spread array.\<close>

fun num_le :: "jsnum \<Rightarrow> jsnum \<Rightarrow> bool" where
  "num_le NInf b = True"
| "num_le a PInf = True"
| "num_le (Fin a) (Fin b) = (a \<le> b)"
| "num_le a b = False"

definition num_max :: "jsnum \<Rightarrow> jsnum \<Rightarrow> jsnum" where
  "num_max a b = (if a = NaN \<or> b = NaN then NaN else if num_le a b then b else a)"

definition num_min :: "jsnum \<Rightarrow> jsnum \<Rightarrow> jsnum" where
  "num_min a b = (if a = NaN \<or> b = NaN then NaN else if num_le a b then a else b)"

definition Math_max :: "jsnum list \<Rightarrow> jsnum" where
  "Math_max vs = foldl num_max NInf vs"

definition Math_min :: "jsnum list \<Rightarrow> jsnum" where
  "Math_min vs = foldl num_min PInf vs"

text \<open>\<open>Math.round\<close>: the nearest integer, a tie going up.\<close>

fun Math_round :: "jsnum \<Rightarrow> jsnum" where
  "Math_round (Fin q) = Fin (of_int \<lfloor>q + 1 / 2\<rfloor>)"
| "Math_round a = a"

text \<open>\<open>x || 0\<close> on a number: NaN and zero are falsy.\<close>

definition or_zero :: "jsnum \<Rightarrow> jsnum" where
  "or_zero a = (if a = NaN \<or> a = Fin 0 then Fin 0 else a)"

text \<open>Decimal digits of integers.\<close>

fun digits_of :: "nat \<Rightarrow> string" where
  "digits_of n =
     (if n < 10 then [char_of (48 + n)] else digits_of (n div 10) @ [char_of (48 + n mod 10)])"

declare digits_of.simps [simp del]

definition int_str :: "int \<Rightarrow> string" where
  "int_str i = (if i < 0 then CHR ''-'' # digits_of (nat (- i)) else digits_of (nat i))"

definition digit_val :: "char \<Rightarrow> nat" where
  "digit_val c = of_char c - 48"

definition nat_of_digits :: "string \<Rightarrow> nat" where
  "nat_of_digits s = foldl (\<lambda>a c. 10 * a + digit_val c) 0 s"

text \<open>\<open>String(n)\<close> for a number.\<close>

fun num_to_string :: "host \<Rightarrow> jsnum \<Rightarrow> string" where
  "num_to_string h NaN = ''NaN''"
| "num_to_string h PInf = ''Infinity''"
| "num_to_string h NInf = ''-Infinity''"
| "num_to_string h (Fin q) =
     (if is_int_rat q \<and> \<bar>q\<bar> < 1000000000000000000000 then int_str \<lfloor>q\<rfloor> else num_str h q)"

text \<open>
  \<open>parseFloat(s)\<close>: leading white space is skipped, then the longest prefix that is a
  decimal literal (sign, \<open>Infinity\<close> or digits with an optional fraction and exponent)
  is read; NaN when there is none.
\<close>

definition scale10 :: "rat \<Rightarrow> int \<Rightarrow> rat" where
  "scale10 q e = (if 0 \<le> e then q * 10 ^ nat e else q / 10 ^ nat (- e))"

definition split_sign :: "string \<Rightarrow> bool \<times> string" where
  "split_sign s =
     (case s of
        [] \<Rightarrow> (False, [])
      | c # r \<Rightarrow> if c = CHR ''-'' then (True, r) else if c = CHR ''+'' then (False, r)
                 else (False, c # r))"

text \<open>The exponent part at the head of a string and what follows it; absent when no digit follows.\<close>

definition exponent_part :: "string \<Rightarrow> (int \<times> string) option" where
  "exponent_part s =
     (case s of
        [] \<Rightarrow> None
      | c # r \<Rightarrow>
          if c = CHR ''e'' \<or> c = CHR ''E'' then
            (let (neg, d) = split_sign r; ds = takeWhile is_digit d
             in if ds = [] then None
                else Some (if neg then - int (nat_of_digits ds) else int (nat_of_digits ds),
                           dropWhile is_digit d))
          else None)"

text \<open>
  An unsigned decimal literal at the head of a string: its exact value and the rest of
  the string.
\<close>

definition unsigned_decimal :: "string \<Rightarrow> (rat \<times> string) option" where
  "unsigned_decimal u =
     (let ip = takeWhile is_digit u;
          r1 = dropWhile is_digit u;
          (fp, r2) = (case r1 of
                        [] \<Rightarrow> ([], [])
                      | c # r \<Rightarrow> if c = CHR ''.'' then (takeWhile is_digit r, dropWhile is_digit r)
                                 else ([], c # r))
      in if ip = [] \<and> fp = [] then None
         else (case exponent_part r2 of
                 None \<Rightarrow> Some (scale10 (of_nat (nat_of_digits (ip @ fp))) (- int (length fp)), r2)
               | Some (e, r3) \<Rightarrow>
                   Some (scale10 (of_nat (nat_of_digits (ip @ fp))) (e - int (length fp)), r3)))"

definition parseFloat :: "host \<Rightarrow> string \<Rightarrow> jsnum" where
  "parseFloat h s =
     (let (neg, u) = split_sign (dropWhile is_space s) in
      if prefix ''Infinity'' u then inf_of_sign neg
      else (case unsigned_decimal u of
              None \<Rightarrow> NaN
            | Some (q, r) \<Rightarrow> fl h (if neg then - q else q)))"

subsection \<open>Errors\<close>

text \<open>A thrown exception is a value: \<open>new Error(msg)\<close>, or a \<open>TypeError\<close> of the engine.\<close>

datatype error = Error string | TypeError

fun map_e :: "('a \<Rightarrow> error + 'b) \<Rightarrow> 'a list \<Rightarrow> error + 'b list" where
  "map_e f [] = Inr []"
| "map_e f (x # xs) =
     (case f x of
        Inl e \<Rightarrow> Inl e
      | Inr y \<Rightarrow> (case map_e f xs of Inl e \<Rightarrow> Inl e | Inr ys \<Rightarrow> Inr (y # ys)))"

fun filter_e :: "('a \<Rightarrow> error + bool) \<Rightarrow> 'a list \<Rightarrow> error + 'a list" where
  "filter_e p [] = Inr []"
| "filter_e p (x # xs) =
     (case p x of
        Inl e \<Rightarrow> Inl e
      | Inr b \<Rightarrow> (case filter_e p xs of
                   Inl e \<Rightarrow> Inl e
                 | Inr ys \<Rightarrow> Inr (if b then x # ys else ys)))"

subsection \<open>Values\<close>

text \<open>
  The data is what \<open>JSON.parse\<close> returns. An object is the list of its own properties
  in the order of \<open>Object.entries\<close>, its keys distinct.
\<close>

datatype json =
  JNull | JBool bool | JNum jsnum | JStr string | JArr "json list" | JObj "(string \<times> json) list"

text \<open>
  A property read \<open>o[k]\<close> on a plain object gives the own property, otherwise the member
  of \<open>Object.prototype\<close> of that name, otherwise \<open>undefined\<close>.
\<close>

datatype jsval = Undefined | Own json | Inherited string

definition object_prototype_keys :: "string list" where
  "object_prototype_keys =
     [''constructor'', ''__defineGetter__'', ''__defineSetter__'', ''hasOwnProperty'',
      ''__lookupGetter__'', ''__lookupSetter__'', ''isPrototypeOf'', ''propertyIsEnumerable'',
      ''toString'', ''valueOf'', ''__proto__'', ''toLocaleString'']"

definition get_prop :: "(string \<times> json) list \<Rightarrow> string \<Rightarrow> jsval" where
  "get_prop obj k =
     (case map_of obj k of
        Some v \<Rightarrow> Own v
      | None \<Rightarrow> if k \<in> set object_prototype_keys then Inherited k else Undefined)"

text \<open>\<open>Array.prototype.join\<close> with the separator \<open>,\<close> on the converted elements.\<close>

fun join_comma :: "string list \<Rightarrow> string" where
  "join_comma [] = []"
| "join_comma [s] = s"
| "join_comma (s # t # ss) = s @ '','' @ join_comma (t # ss)"

text \<open>
  \<open>String(v)\<close>. An array joins its elements, \<open>null\<close> giving the empty string. An object
  is converted by its \<open>toString\<close> member: the inherited one answers \<open>[object Object]\<close>; an
  own property of that name is data, not a function, and then neither it nor \<open>valueOf\<close>
  yields a primitive, which is a \<open>TypeError\<close>.
\<close>

fun json_str :: "host \<Rightarrow> json \<Rightarrow> error + string"
  and json_elems :: "host \<Rightarrow> json list \<Rightarrow> error + string list"
where
  "json_str h JNull = Inr ''null''"
| "json_str h (JBool b) = Inr (if b then ''true'' else ''false'')"
| "json_str h (JNum n) = Inr (num_to_string h n)"
| "json_str h (JStr s) = Inr s"
| "json_str h (JArr xs) =
     (case json_elems h xs of Inl e \<Rightarrow> Inl e | Inr ss \<Rightarrow> Inr (join_comma ss))"
| "json_str h (JObj kvs) =
     (if ''toString'' \<in> set (map fst kvs) then Inl TypeError else Inr ''[object Object]'')"
| "json_elems h [] = Inr []"
| "json_elems h (x # xs) =
     (case (if x = JNull then Inr [] else json_str h x) of
        Inl e \<Rightarrow> Inl e
      | Inr s \<Rightarrow> (case json_elems h xs of Inl e \<Rightarrow> Inl e | Inr ss \<Rightarrow> Inr (s # ss)))"

definition ToString :: "host \<Rightarrow> jsval \<Rightarrow> error + string" where
  "ToString h v =
     (case v of
        Undefined \<Rightarrow> Inr ''undefined''
      | Own j \<Rightarrow> json_str h j
      | Inherited k \<Rightarrow> Inr (if k = ''__proto__'' then ''[object Object]'' else fun_str h k))"

text \<open>Truthiness, as \<open>||\<close> and \<open>!\<close> read it.\<close>

definition truthy :: "jsval \<Rightarrow> bool" where
  "truthy v =
     (case v of
        Undefined \<Rightarrow> False
      | Inherited k \<Rightarrow> True
      | Own j \<Rightarrow>
          (case j of
             JNull \<Rightarrow> False
           | JBool b \<Rightarrow> b
           | JNum n \<Rightarrow> n \<noteq> NaN \<and> n \<noteq> Fin 0
           | JStr s \<Rightarrow> s \<noteq> []
           | JArr xs \<Rightarrow> True
           | JObj kvs \<Rightarrow> True))"

text \<open>
  \<open>Object.entries\<close> of a dictionary object built by assignments: the keys that are array
  indices come first, in ascending numeric order, then the other keys in the order of
  their creation.
\<close>

definition is_array_index :: "string \<Rightarrow> bool" where
  "is_array_index s =
     (s \<noteq> [] \<and> list_all is_digit s \<and> (s = ''0'' \<or> hd s \<noteq> CHR ''0'')
      \<and> int (nat_of_digits s) < 4294967295)"

definition own_entries :: "(string \<times> 'a) list \<Rightarrow> (string \<times> 'a) list" where
  "own_entries kvs =
     sort_key (\<lambda>kv. int (nat_of_digits (fst kv))) (filter (\<lambda>kv. is_array_index (fst kv)) kvs)
     @ filter (\<lambda>kv. \<not> is_array_index (fst kv)) kvs"

text \<open>
  \<open>Array.prototype.sort\<close> with a comparison function: a stable sort, written as
  insertion from the right. The comparison is the host's collation, taken to be
  consistent (a total preorder), for which every stable sort gives this result.
\<close>

fun insert_by :: "('a \<Rightarrow> 'a \<Rightarrow> int) \<Rightarrow> 'a \<Rightarrow> 'a list \<Rightarrow> 'a list" where
  "insert_by cmp x [] = [x]"
| "insert_by cmp x (y # ys) = (if cmp x y \<le> 0 then x # y # ys else y # insert_by cmp x ys)"

fun sort_by :: "('a \<Rightarrow> 'a \<Rightarrow> int) \<Rightarrow> 'a list \<Rightarrow> 'a list" where
  "sort_by cmp [] = []"
| "sort_by cmp (x # xs) = insert_by cmp x (sort_by cmp xs)"

subsection \<open>Dates\<close>

text \<open>
  Days since 1970-01-01 of a date of the proleptic Gregorian calendar, and back
  (month \<open>1..12\<close>).
\<close>

definition days_from_civil :: "int \<Rightarrow> int \<Rightarrow> int \<Rightarrow> int" where
  "days_from_civil y m d =
     (let y1 = (if m \<le> 2 then y - 1 else y);
          era = y1 div 400;
          yoe = y1 - era * 400;
          doy = (153 * (if 2 < m then m - 3 else m + 9) + 2) div 5 + d - 1;
          doe = yoe * 365 + yoe div 4 - yoe div 100 + doy
      in era * 146097 + doe - 719468)"

definition civil_from_days :: "int \<Rightarrow> int \<times> int \<times> int" where
  "civil_from_days z0 =
     (let z = z0 + 719468;
          era = z div 146097;
          doe = z - era * 146097;
          yoe = (doe - doe div 1460 + doe div 36524 - doe div 146096) div 365;
          doy = doe - (365 * yoe + yoe div 4 - yoe div 100);
          mp = (5 * doy + 2) div 153;
          d = doy - (153 * mp + 2) div 5 + 1;
          m = (if mp < 10 then mp + 3 else mp - 9)
      in (if m \<le> 2 then yoe + era * 400 + 1 else yoe + era * 400, m, d))"

definition is_leap :: "int \<Rightarrow> bool" where
  "is_leap y = (y mod 4 = 0 \<and> (y mod 100 \<noteq> 0 \<or> y mod 400 = 0))"

definition days_in_month :: "int \<Rightarrow> int \<Rightarrow> int" where
  "days_in_month y m =
     (if m = 2 then (if is_leap y then 29 else 28)
      else if m = 4 \<or> m = 6 \<or> m = 9 \<or> m = 11 then 30 else 31)"

text \<open>
  The date-only forms \<open>YYYY\<close>, \<open>YYYY-MM\<close> and \<open>YYYY-MM-DD\<close> of the standard's date-time
  string format; a string with an out-of-range element is not of the format.
\<close>

definition iso_date_only :: "string \<Rightarrow> (int \<times> int \<times> int) option" where
  "iso_date_only s =
     (let ys = take 4 s; r1 = drop 4 s in
      if length ys \<noteq> 4 \<or> \<not> list_all is_digit ys then None
      else if r1 = [] then Some (int (nat_of_digits ys), 1, 1)
      else
        let ms = take 2 (drop 1 r1); r2 = drop 3 r1; m = int (nat_of_digits ms) in
        if hd r1 \<noteq> CHR ''-'' \<or> length ms \<noteq> 2 \<or> \<not> list_all is_digit ms \<or> m < 1 \<or> 12 < m
        then None
        else if r2 = [] then Some (int (nat_of_digits ys), m, 1)
        else
          let ds = take 2 (drop 1 r2); d = int (nat_of_digits ds) in
          if hd r2 \<noteq> CHR ''-'' \<or> length ds \<noteq> 2 \<or> \<not> list_all is_digit ds \<or> drop 3 r2 \<noteq> []
             \<or> d < 1 \<or> days_in_month (int (nat_of_digits ys)) m < d
          then None
          else Some (int (nat_of_digits ys), m, d))"

text \<open>
  \<open>new Date(s)\<close> for a string: the time value in milliseconds since the epoch, \<open>None\<close>
  for an invalid date. A date-only form is read as UTC midnight.
\<close>

definition Date_parse :: "host \<Rightarrow> string \<Rightarrow> int option" where
  "Date_parse h s =
     (case iso_date_only s of
        Some (y, m, d) \<Rightarrow> Some (days_from_civil y m d * 86400000)
      | None \<Rightarrow> parse_other h s)"

text \<open>The getters read the time value in local time.\<close>

definition local_date :: "host \<Rightarrow> int \<Rightarrow> int \<times> int \<times> int" where
  "local_date h t = civil_from_days ((t + localTZA h t) div 86400000)"

definition getFullYear :: "host \<Rightarrow> int \<Rightarrow> int" where
  "getFullYear h t = fst (local_date h t)"

definition getMonth :: "host \<Rightarrow> int \<Rightarrow> int" where
  "getMonth h t = fst (snd (local_date h t)) - 1"

definition getDate :: "host \<Rightarrow> int \<Rightarrow> int" where
  "getDate h t = snd (snd (local_date h t))"

definition padStart2 :: "string \<Rightarrow> string" where
  "padStart2 s = replicate (2 - length s) (CHR ''0'') @ s"

section \<open>Data model (types/index.ts)\<close>

datatype FieldType =
  TNumber | TNumberString | TString | TDate | TBoolean | TObject | TArray | TNull
  | TMixed | TUnknown

datatype ChartType = Line | Bar | Pie | Scatter

datatype GroupBy = Day | Week | Month | Year

datatype Aggregate = Sum | Average | Count | Max | Min

record FilterSpec =
  field :: string
  fvalue :: string

record ChartConfig =
  chartType :: ChartType
  xField :: string
  yField :: string
  labelField :: "string option"
  groupBy :: "GroupBy option"
  filter_f :: "FilterSpec option"
  aggregate :: Aggregate
  color :: string
  title :: string

record SchemaField =
  name :: string
  ftype :: FieldType
  types :: "FieldType list"
  coverage :: jsnum
  samples :: "string list"

section \<open>Chart intent resolution (Chat.tsx, generateChartConfig)\<close>

text \<open>
  The filter pattern \<open>/(?:only|where|filter)\s+(\w+)\s*=\s*["']?(\w+)["']?/i\<close>, matched
  at the head of a string. The classes \<open>\s\<close>, \<open>\w\<close> and the characters \<open>=\<close>, \<open>"\<close>,
  \<open>'\<close> are pairwise disjoint, so the greedy quantifiers never give a character back;
  the text is lower-cased before matching, so the flag \<open>i\<close> changes nothing.
\<close>

definition strip_keyword :: "string \<Rightarrow> string option" where
  "strip_keyword s =
     (if prefix ''only'' s then Some (drop 4 s)
      else if prefix ''where'' s then Some (drop 5 s)
      else if prefix ''filter'' s then Some (drop 6 s)
      else None)"

definition strip_quote :: "string \<Rightarrow> string" where
  "strip_quote s =
     (case s of [] \<Rightarrow> [] | c # cs \<Rightarrow> if c = CHR 0x22 \<or> c = CHR 0x27 then cs else c # cs)"

definition match_filter_at :: "string \<Rightarrow> FilterSpec option" where
  "match_filter_at s =
     (case strip_keyword s of
        None \<Rightarrow> None
      | Some r1 \<Rightarrow>
          if takeWhile is_space r1 = [] then None
          else
            let r2 = dropWhile is_space r1;
                fld = takeWhile is_word r2;
                r3 = dropWhile is_space (dropWhile is_word r2)
            in if fld = [] then None
               else (case r3 of
                       [] \<Rightarrow> None
                     | c # r4 \<Rightarrow>
                         if c \<noteq> CHR ''='' then None
                         else
                           let v = takeWhile is_word (strip_quote (dropWhile is_space r4))
                           in if v = [] then None
                              else Some \<lparr>field = fld, fvalue = v\<rparr>))"

text \<open>\<open>msg.match(re)\<close> without the flag \<open>g\<close>: the leftmost position that matches.\<close>

fun match_filter :: "string \<Rightarrow> FilterSpec option" where
  "match_filter [] = match_filter_at []"
| "match_filter (c # cs) =
     (case match_filter_at (c # cs) of Some r \<Rightarrow> Some r | None \<Rightarrow> match_filter cs)"

definition detect_chartType :: "string \<Rightarrow> ChartType" where
  "detect_chartType msg =
     (let t0 = Line;
          t1 = (if str_includes msg ''bar'' then Bar else t0);
          t2 = (if str_includes msg ''pie'' \<or> str_includes msg ''donut'' then Pie else t1);
          t3 = (if str_includes msg ''scatter'' \<or> str_includes msg ''point'' then Scatter else t2)
      in t3)"

text \<open>
  The body of the \<open>schema.forEach\<close> callback: the state is the pair of the variables
  \<open>xField\<close> and \<open>yField\<close> (\<open>None\<close> is \<open>null\<close>). \<open>!xField\<close> holds for \<open>null\<close> and
  for the empty string.
\<close>

definition falsy_field :: "string option \<Rightarrow> bool" where
  "falsy_field v = (v = None \<or> v = Some [])"

definition detect_step ::
  "string \<Rightarrow> string option \<times> string option \<Rightarrow> SchemaField \<Rightarrow> string option \<times> string option"
where
  "detect_step msg st f =
     (let nm = toLowerCase (name f) in
      if str_includes msg nm then
        (let x1 = (if ftype f = TDate \<or> ftype f = TString
                   then (if falsy_field (fst st) then Some (name f) else fst st)
                   else fst st);
             y1 = (if ftype f = TNumber \<or> ftype f = TNumberString
                   then Some (name f) else snd st)
         in (x1, y1))
      else st)"

definition detect_fields :: "string \<Rightarrow> SchemaField list \<Rightarrow> string option \<times> string option" where
  "detect_fields msg schema = foldl (detect_step msg) (None, None) schema"

text \<open>\<open>a?.name || b\<close> on the result of \<open>schema.find\<close> or of an index read.\<close>

definition name_or :: "SchemaField option \<Rightarrow> string \<Rightarrow> string" where
  "name_or fo d = (case fo of None \<Rightarrow> d | Some f \<Rightarrow> if name f = [] then d else name f)"

definition nth_opt :: "'a list \<Rightarrow> nat \<Rightarrow> 'a option" where
  "nth_opt xs i = (if i < length xs then Some (xs ! i) else None)"

definition fallback_x :: "SchemaField list \<Rightarrow> string" where
  "fallback_x schema =
     name_or (find (\<lambda>f. ftype f = TDate) schema)
       (name_or (find (\<lambda>f. ftype f = TString) schema)
          (name_or (nth_opt schema 0) []))"

definition fallback_y :: "SchemaField list \<Rightarrow> string" where
  "fallback_y schema =
     name_or (find (\<lambda>f. ftype f = TNumber \<or> ftype f = TNumberString) schema)
       (name_or (nth_opt schema 1) [])"

definition detect_groupBy :: "string \<Rightarrow> GroupBy option" where
  "detect_groupBy msg =
     (let g0 = None;
          g1 = (if str_includes msg ''by month'' then Some Month else g0);
          g2 = (if str_includes msg ''by week'' then Some Week else g1);
          g3 = (if str_includes msg ''by day'' then Some Day else g2);
          g4 = (if str_includes msg ''by year'' then Some Year else g3)
      in g4)"

definition detect_aggregate :: "string \<Rightarrow> Aggregate" where
  "detect_aggregate msg =
     (let a0 = Sum;
          a1 = (if str_includes msg ''average'' \<or> str_includes msg ''avg'' \<or> str_includes msg ''mean''
                then Average else a0);
          a2 = (if str_includes msg ''count'' then Count else a1);
          a3 = (if str_includes msg ''max'' then Max else a2);
          a4 = (if str_includes msg ''min'' then Min else a3)
      in a4)"

definition detect_color :: "string \<Rightarrow> string" where
  "detect_color msg =
     (let c0 = ''#3b82f6'';
          c1 = (if str_includes msg ''red'' then ''#ef4444'' else c0);
          c2 = (if str_includes msg ''green'' then ''#22c55e'' else c1);
          c3 = (if str_includes msg ''purple'' then ''#8b5cf6'' else c2);
          c4 = (if str_includes msg ''orange'' then ''#f97316'' else c3);
          c5 = (if str_includes msg ''pink'' then ''#ec4899'' else c4)
      in c5)"

definition or_str :: "string \<Rightarrow> string \<Rightarrow> string" where
  "or_str s d = (if s = [] then d else s)"

text \<open>
  \<open>generateChartConfig\<close>. The component's \<open>schema\<close> prop is an array or \<open>null\<close>; the guard
  \<open>if (!schema) throw\<close> fires for \<open>null\<close> only, an empty array being truthy.
\<close>

definition generateChartConfig :: "SchemaField list option \<Rightarrow> string \<Rightarrow> error + ChartConfig" where
  "generateChartConfig schema_opt userMessage =
     (case schema_opt of
        None \<Rightarrow> Inl (Error ''No schema available'')
      | Some schema \<Rightarrow>
          let msg = toLowerCase userMessage;
              ct = detect_chartType msg;
              xy = detect_fields msg schema;
              x = (case fst xy of None \<Rightarrow> fallback_x schema
                   | Some s \<Rightarrow> if s = [] then fallback_x schema else s);
              y = (case snd xy of None \<Rightarrow> fallback_y schema
                   | Some s \<Rightarrow> if s = [] then fallback_y schema else s)
          in Inr \<lparr>chartType = ct,
                    xField = or_str x [],
                    yField = or_str y [],
                    labelField = (if ct = Pie then Some x else None),
                    groupBy = detect_groupBy msg,
                    filter_f = match_filter msg,
                    aggregate = detect_aggregate msg,
                    color = detect_color msg,
                    title = or_str y ''Value'' @ '' by '' @ or_str x ''Category''\<rparr>)"

section \<open>Data transformation (ChartPreview.tsx, transformData)\<close>

text \<open>
  \<open>DataRow = Record<string, unknown>\<close>: a row is a plain object, given by its own
  properties; their values are parsed JSON.
\<close>

type_synonym DataRow = "(string \<times> json) list"

record TransformedData =
  labels :: "string list"
  values_f :: "jsnum list"

text \<open>The filter callback: \<open>String(item[field]).toLowerCase() === String(value).toLowerCase()\<close>.\<close>

definition filter_pred :: "host \<Rightarrow> FilterSpec \<Rightarrow> DataRow \<Rightarrow> error + bool" where
  "filter_pred h f item =
     (case ToString h (get_prop item (field f)) of
        Inl e \<Rightarrow> Inl e
      | Inr s \<Rightarrow> Inr (toLowerCase s = toLowerCase (fvalue f)))"

definition apply_filter :: "host \<Rightarrow> ChartConfig \<Rightarrow> DataRow list \<Rightarrow> error + DataRow list" where
  "apply_filter h config data =
     (case filter_f config of
        None \<Rightarrow> Inr data
      | Some f \<Rightarrow> filter_e (filter_pred h f) data)"

text \<open>\<open>String(item[config.xField] || '')\<close>.\<close>

definition x_label :: "host \<Rightarrow> ChartConfig \<Rightarrow> DataRow \<Rightarrow> error + string" where
  "x_label h config item =
     (let v = get_prop item (xField config) in if truthy v then ToString h v else Inr [])"

text \<open>\<open>parseFloat(String(i[config.yField])) || 0\<close>.\<close>

definition y_value :: "host \<Rightarrow> ChartConfig \<Rightarrow> DataRow \<Rightarrow> error + jsnum" where
  "y_value h config item =
     (case ToString h (get_prop item (yField config)) of
        Inl e \<Rightarrow> Inl e
      | Inr s \<Rightarrow> Inr (or_zero (parseFloat h s)))"

text \<open>The bucket key of a row: the body of the \<open>forEach\<close> callback up to the store.\<close>

definition month_key :: "host \<Rightarrow> int \<Rightarrow> string" where
  "month_key h t = int_str (getFullYear h t) @ ''-'' @ padStart2 (int_str (getMonth h t + 1))"

definition year_key :: "host \<Rightarrow> int \<Rightarrow> string" where
  "year_key h t = int_str (getFullYear h t)"

definition week_key :: "host \<Rightarrow> int \<Rightarrow> string" where
  "week_key h t =
     int_str (getFullYear h t) @ ''-W'' @ int_str \<lceil>(of_int (getDate h t) :: rat) / 7\<rceil>"

definition bucket :: "host \<Rightarrow> GroupBy option \<Rightarrow> string \<Rightarrow> string" where
  "bucket h g key =
     (if g = Some Month \<and> key \<noteq> [] then
        (case Date_parse h key of None \<Rightarrow> key | Some t \<Rightarrow> month_key h t)
      else if g = Some Year \<and> key \<noteq> [] then
        (case Date_parse h key of None \<Rightarrow> key | Some t \<Rightarrow> year_key h t)
      else if g = Some Week \<and> key \<noteq> [] then
        (case Date_parse h key of None \<Rightarrow> key | Some t \<Rightarrow> week_key h t)
      else key)"

definition group_key :: "host \<Rightarrow> ChartConfig \<Rightarrow> DataRow \<Rightarrow> error + string" where
  "group_key h config item =
     (case x_label h config item of
        Inl e \<Rightarrow> Inl e
      | Inr key \<Rightarrow> Inr (bucket h (groupBy config) key))"

text \<open>
  \<open>if (!groups[key]) groups[key] = []; groups[key].push(item)\<close> on the dictionary
  \<open>groups = {}\<close>. For a key that is not an own property but names a member of
  \<open>Object.prototype\<close> the read is truthy, nothing is stored, and the member has no
  \<open>push\<close>: a \<open>TypeError\<close>.
\<close>

definition group_push ::
  "(string \<times> DataRow list) list \<Rightarrow> string \<Rightarrow> DataRow \<Rightarrow> error + (string \<times> DataRow list) list"
where
  "group_push groups key item =
     (case map_of groups key of
        Some items \<Rightarrow> Inr (AList.update key (items @ [item]) groups)
      | None \<Rightarrow>
          if key \<in> set object_prototype_keys then Inl TypeError
          else Inr (groups @ [(key, [item])]))"

fun group_rows ::
  "host \<Rightarrow> ChartConfig \<Rightarrow> (string \<times> DataRow list) list \<Rightarrow> DataRow list
     \<Rightarrow> error + (string \<times> DataRow list) list"
where
  "group_rows h config groups [] = Inr groups"
| "group_rows h config groups (item # rest) =
     (case group_key h config item of
        Inl e \<Rightarrow> Inl e
      | Inr key \<Rightarrow>
          (case group_push groups key item of
             Inl e \<Rightarrow> Inl e
           | Inr groups' \<Rightarrow> group_rows h config groups' rest))"

definition sum_values :: "host \<Rightarrow> jsnum list \<Rightarrow> jsnum" where
  "sum_values h vs = foldl (num_add h) (Fin 0) vs"

definition aggregate_value :: "host \<Rightarrow> Aggregate \<Rightarrow> DataRow list \<Rightarrow> jsnum list \<Rightarrow> jsnum" where
  "aggregate_value h a items vs =
     (case a of
        Average \<Rightarrow> num_div h (sum_values h vs) (Fin (of_nat (length vs)))
      | Count \<Rightarrow> Fin (of_nat (length items))
      | Max \<Rightarrow> Math_max vs
      | Min \<Rightarrow> Math_min vs
      | Sum \<Rightarrow> sum_values h vs)"

definition aggregate_entry ::
  "host \<Rightarrow> ChartConfig \<Rightarrow> string \<times> DataRow list \<Rightarrow> error + string \<times> jsnum"
where
  "aggregate_entry h config kv =
     (case map_e (y_value h config) (snd kv) of
        Inl e \<Rightarrow> Inl e
      | Inr vs \<Rightarrow> Inr (fst kv, aggregate_value h (aggregate config) (snd kv) vs))"

definition sort_aggregated :: "host \<Rightarrow> (string \<times> jsnum) list \<Rightarrow> (string \<times> jsnum) list" where
  "sort_aggregated h ag = sort_by (\<lambda>a b. collate h (fst a) (fst b)) ag"

definition transform_grouped :: "host \<Rightarrow> ChartConfig \<Rightarrow> DataRow list \<Rightarrow> error + TransformedData" where
  "transform_grouped h config processed =
     (case group_rows h config [] processed of
        Inl e \<Rightarrow> Inl e
      | Inr groups \<Rightarrow>
          (case map_e (aggregate_entry h config) (own_entries groups) of
             Inl e \<Rightarrow> Inl e
           | Inr aggregated \<Rightarrow>
               let sorted = sort_aggregated h aggregated
               in Inr \<lparr>labels = map fst sorted, values_f = map snd sorted\<rparr>))"

definition transform_plain :: "host \<Rightarrow> ChartConfig \<Rightarrow> DataRow list \<Rightarrow> error + TransformedData" where
  "transform_plain h config processed =
     (case map_e (x_label h config) processed of
        Inl e \<Rightarrow> Inl e
      | Inr ls \<Rightarrow>
          (case map_e (y_value h config) processed of
             Inl e \<Rightarrow> Inl e
           | Inr vs \<Rightarrow> Inr \<lparr>labels = ls, values_f = vs\<rparr>))"

text \<open>
  \<open>transformData\<close>: \<open>None\<close> for an argument is \<open>null\<close>, and the result \<open>None\<close> is the
  \<open>null\<close> of the first line. \<open>config.groupBy && config.xField\<close> holds when a bucket is
  set and the x-field is not the empty string.
\<close>

definition transformData ::
  "host \<Rightarrow> DataRow list option \<Rightarrow> ChartConfig option \<Rightarrow> error + TransformedData option"
where
  "transformData h data_opt config_opt =
     (case (data_opt, config_opt) of
        (Some data, Some config) \<Rightarrow>
          (case apply_filter h config data of
             Inl e \<Rightarrow> Inl e
           | Inr processed \<Rightarrow>
               (case (if groupBy config \<noteq> None \<and> xField config \<noteq> []
                      then transform_grouped h config processed
                      else transform_plain h config processed) of
                  Inl e \<Rightarrow> Inl e
                | Inr out \<Rightarrow> Inr (Some out)))
      | _ \<Rightarrow> Inr None)"

section \<open>The generated component (generateComponentCode)\<close>

text \<open>
  \<open>generateComponentCode\<close> returns the text of a component. The functions below are what
  that text computes from its \<open>data\<close> prop, for a configuration whose field names are
  identifiers (the template writes them after a dot, \<open>d.name\<close>) and whose filter value
  holds no quote. The pieces follow the template: \<open>filterCode\<close>, \<open>keyExtraction\<close>,
  \<open>aggregation\<close>, \<open>groupCode\<close>.
\<close>

text \<open>\<open>String(d.field).toLowerCase() === 'value'\<close>, the value lower-cased by the generator.\<close>

definition gen_filter_pred :: "host \<Rightarrow> FilterSpec \<Rightarrow> DataRow \<Rightarrow> error + bool" where
  "gen_filter_pred h f d =
     (case ToString h (get_prop d (field f)) of
        Inl e \<Rightarrow> Inl e
      | Inr s \<Rightarrow> Inr (toLowerCase s = toLowerCase (fvalue f)))"

definition gen_filtered :: "host \<Rightarrow> ChartConfig \<Rightarrow> DataRow list \<Rightarrow> error + DataRow list" where
  "gen_filtered h config data =
     (case filter_f config of
        None \<Rightarrow> Inr data
      | Some f \<Rightarrow> filter_e (gen_filter_pred h f) data)"

text \<open>
  \<open>new Date(v)\<close> for a value: a string is parsed; \<open>undefined\<close>, \<open>null\<close>, a boolean and a
  number are converted to a number and clipped to the range of time values; an object
  is converted to its string first.
\<close>

definition TimeClip :: "jsnum \<Rightarrow> int option" where
  "TimeClip n =
     (case n of
        Fin q \<Rightarrow> if 8640000000000000 < \<bar>q\<bar> then None
                 else Some (if q < 0 then - \<lfloor>- q\<rfloor> else \<lfloor>q\<rfloor>)
      | _ \<Rightarrow> None)"

definition Date_new :: "host \<Rightarrow> jsval \<Rightarrow> error + int option" where
  "Date_new h v =
     (case v of
        Undefined \<Rightarrow> Inr None
      | Own JNull \<Rightarrow> Inr (Some 0)
      | Own (JBool b) \<Rightarrow> Inr (Some (if b then 1 else 0))
      | Own (JNum n) \<Rightarrow> Inr (TimeClip n)
      | _ \<Rightarrow> (case ToString h v of Inl e \<Rightarrow> Inl e | Inr s \<Rightarrow> Inr (Date_parse h s)))"

text \<open>
  \<open>keyExtraction\<close>. The getters of an invalid date answer NaN, which the template
  literals print as \<open>NaN\<close>.
\<close>

definition gen_key :: "host \<Rightarrow> ChartConfig \<Rightarrow> DataRow \<Rightarrow> error + string" where
  "gen_key h config d =
     (let v = get_prop d (xField config) in
      case groupBy config of
        Some Month \<Rightarrow>
          (case Date_new h v of
             Inl e \<Rightarrow> Inl e
           | Inr None \<Rightarrow> Inr ''NaN-NaN''
           | Inr (Some t) \<Rightarrow> Inr (month_key h t))
      | Some Year \<Rightarrow>
          (case Date_new h v of
             Inl e \<Rightarrow> Inl e
           | Inr None \<Rightarrow> Inr ''NaN''
           | Inr (Some t) \<Rightarrow> Inr (year_key h t))
      | Some Week \<Rightarrow>
          (case Date_new h v of
             Inl e \<Rightarrow> Inl e
           | Inr None \<Rightarrow> Inr ''NaN-WNaN''
           | Inr (Some t) \<Rightarrow> Inr (week_key h t))
      | _ \<Rightarrow> ToString h v)"

fun gen_group_rows ::
  "host \<Rightarrow> ChartConfig \<Rightarrow> (string \<times> DataRow list) list \<Rightarrow> DataRow list
     \<Rightarrow> error + (string \<times> DataRow list) list"
where
  "gen_group_rows h config groups [] = Inr groups"
| "gen_group_rows h config groups (d # rest) =
     (case gen_key h config d of
        Inl e \<Rightarrow> Inl e
      | Inr key \<Rightarrow>
          (case group_push groups key d of
             Inl e \<Rightarrow> Inl e
           | Inr groups' \<Rightarrow> gen_group_rows h config groups' rest))"

definition gen_aggregation :: "host \<Rightarrow> Aggregate \<Rightarrow> DataRow list \<Rightarrow> jsnum list \<Rightarrow> jsnum" where
  "gen_aggregation h a items vs =
     (case a of
        Average \<Rightarrow> num_div h (foldl (num_add h) (Fin 0) vs) (Fin (of_nat (length vs)))
      | Count \<Rightarrow> Fin (of_nat (length items))
      | Max \<Rightarrow> Math_max vs
      | Min \<Rightarrow> Math_min vs
      | Sum \<Rightarrow> foldl (num_add h) (Fin 0) vs)"

definition gen_entry ::
  "host \<Rightarrow> ChartConfig \<Rightarrow> string \<times> DataRow list \<Rightarrow> error + string \<times> jsnum"
where
  "gen_entry h config kv =
     (case map_e (y_value h config) (snd kv) of
        Inl e \<Rightarrow> Inl e
      | Inr vs \<Rightarrow> Inr (fst kv, gen_aggregation h (aggregate config) (snd kv) vs))"

definition gen_groupCode :: "host \<Rightarrow> ChartConfig \<Rightarrow> DataRow list \<Rightarrow> error + TransformedData" where
  "gen_groupCode h config filtered =
     (if groupBy config \<noteq> None then
        (case gen_group_rows h config [] filtered of
           Inl e \<Rightarrow> Inl e
         | Inr groups \<Rightarrow>
             (case map_e (gen_entry h config) (own_entries groups) of
                Inl e \<Rightarrow> Inl e
              | Inr ag \<Rightarrow>
                  let aggregated = sort_by (\<lambda>a b. collate h (fst a) (fst b)) ag
                  in Inr \<lparr>labels = map fst aggregated, values_f = map snd aggregated\<rparr>))
      else
        (case map_e (\<lambda>d. ToString h (get_prop d (xField config))) filtered of
           Inl e \<Rightarrow> Inl e
         | Inr ls \<Rightarrow>
             (case map_e (y_value h config) filtered of
                Inl e \<Rightarrow> Inl e
              | Inr vs \<Rightarrow> Inr \<lparr>labels = ls, values_f = vs\<rparr>)))"

text \<open>
  The component: \<open>None\<close> is the \<open>No data available\<close> element it returns for an empty
  array, otherwise the labels and values it hands to the chart.
\<close>

definition generated_component ::
  "host \<Rightarrow> ChartConfig \<Rightarrow> DataRow list \<Rightarrow> error + TransformedData option"
where
  "generated_component h config data =
     (if data = [] then Inr None
      else (case gen_filtered h config data of
              Inl e \<Rightarrow> Inl e
            | Inr filtered \<Rightarrow>
                (case gen_groupCode h config filtered of
                   Inl e \<Rightarrow> Inl e
                 | Inr out \<Rightarrow> Inr (Some out))))"

section \<open>The chat turn (Chat.tsx, handleSubmit)\<close>

datatype Role = User | Assistant

record Message =
  role :: Role
  content :: string

text \<open>
  The state a submission touches: the component's own (\<open>messages\<close>, \<open>input\<close>,
  \<open>isLoading\<close>) and the configuration that \<open>onChartGenerated\<close> stores in the parent.
\<close>

record ChatState =
  messages :: "Message list"
  input :: string
  isLoading :: bool
  chartConfig :: "ChartConfig option"

definition trim :: "string \<Rightarrow> string" where
  "trim s = rev (dropWhile is_space (rev (dropWhile is_space s)))"

text \<open>The characters before each line of the reply, as the source file holds them.\<close>

definition bullet :: string where
  "bullet = [CHR 0xC3, CHR 0xA2, CHR 0xE2, CHR 0x82, CHR 0xAC, CHR 0xC2, CHR 0xA2]"

definition chartType_name :: "ChartType \<Rightarrow> string" where
  "chartType_name t = (case t of Line \<Rightarrow> ''line'' | Bar \<Rightarrow> ''bar'' | Pie \<Rightarrow> ''pie'' | Scatter \<Rightarrow> ''scatter'')"

definition groupBy_name :: "GroupBy \<Rightarrow> string" where
  "groupBy_name g = (case g of Day \<Rightarrow> ''day'' | Week \<Rightarrow> ''week'' | Month \<Rightarrow> ''month'' | Year \<Rightarrow> ''year'')"

definition aggregate_name :: "Aggregate \<Rightarrow> string" where
  "aggregate_name a =
     (case a of Sum \<Rightarrow> ''sum'' | Average \<Rightarrow> ''average'' | Count \<Rightarrow> ''count'' | Max \<Rightarrow> ''max''
      | Min \<Rightarrow> ''min'')"

definition response_text :: "ChartConfig \<Rightarrow> string" where
  "response_text config =
     ''I'' @ [CHR 0x27] @ ''ll create a **'' @ chartType_name (chartType config) @ '' chart** for you:''
       @ [CHR 0x0A, CHR 0x0A]
     @ bullet @ '' X-axis: **'' @ xField config @ ''**'' @ [CHR 0x0A]
     @ bullet @ '' Y-axis: **'' @ yField config @ ''**'' @ [CHR 0x0A]
     @ (case groupBy config of
          None \<Rightarrow> []
        | Some g \<Rightarrow> bullet @ '' Grouped by: **'' @ groupBy_name g @ ''**'' @ [CHR 0x0A])
     @ (case filter_f config of
          None \<Rightarrow> []
        | Some f \<Rightarrow> bullet @ '' Filtered: **'' @ field f @ '' = '' @ fvalue f @ ''**'' @ [CHR 0x0A])
     @ bullet @ '' Aggregation: **'' @ aggregate_name (aggregate config) @ ''**'' @ [CHR 0x0A, CHR 0x0A]
     @ ''Check the preview on the right. Want any changes?''"

definition fallback_text :: string where
  "fallback_text =
     ''Sorry, I had trouble understanding that. Could you rephrase? Try something like ''
     @ [CHR 0x22] @ ''bar chart of sales by month'' @ [CHR 0x22] @ ''.''"

text \<open>
  \<open>handleSubmit\<close>, from the state before the event to the state after the handler has
  run to its end (the delay before the reply does not change what is computed). The
  exception of \<open>generateChartConfig\<close> is caught by the handler's \<open>catch\<close>.
\<close>

definition handleSubmit :: "SchemaField list option \<Rightarrow> bool \<Rightarrow> ChatState \<Rightarrow> ChatState" where
  "handleSubmit schema disabled st =
     (if trim (input st) = [] \<or> isLoading st \<or> disabled then st
      else
        let userMessage = trim (input st);
            asked = messages st @ [\<lparr>role = User, content = userMessage\<rparr>]
        in (case generateChartConfig schema userMessage of
              Inr config \<Rightarrow>
                st\<lparr>input := [],
                   messages := asked @ [\<lparr>role = Assistant, content = response_text config\<rparr>],
                   isLoading := False,
                   chartConfig := Some config\<rparr>
            | Inl e \<Rightarrow>
                st\<lparr>input := [],
                   messages := asked @ [\<lparr>role = Assistant, content = fallback_text\<rparr>],
                   isLoading := False\<rparr>))"

section \<open>Schema inference (JsonUploader.tsx)\<close>

text \<open>The pattern \<open>/^\d{4}-\d{2}-\d{2}/\<close>.\<close>

definition date_like :: "string \<Rightarrow> bool" where
  "date_like s =
     (10 \<le> length s \<and> list_all is_digit (take 4 s) \<and> s ! 4 = CHR ''-''
      \<and> list_all is_digit (take 2 (drop 5 s)) \<and> s ! 7 = CHR ''-''
      \<and> list_all is_digit (take 2 (drop 8 s)))"

text \<open>
  \<open>!isNaN(Number(value)) && value.trim() !== ''\<close>: the trimmed string is not empty and
  is a numeric literal, decimal (with an optional sign) or with one of the prefixes \<open>0x\<close>,
  \<open>0o\<close>, \<open>0b\<close>.
\<close>

definition is_hex_digit :: "char \<Rightarrow> bool" where
  "is_hex_digit c =
     (let n = (of_char c :: nat)
      in (48 \<le> n \<and> n \<le> 57) \<or> (65 \<le> n \<and> n \<le> 70) \<or> (97 \<le> n \<and> n \<le> 102))"

definition is_octal_digit :: "char \<Rightarrow> bool" where
  "is_octal_digit c = (let n = (of_char c :: nat) in 48 \<le> n \<and> n \<le> 55)"

definition is_binary_digit :: "char \<Rightarrow> bool" where
  "is_binary_digit c = (c = CHR ''0'' \<or> c = CHR ''1'')"

definition non_decimal_literal :: "string \<Rightarrow> bool" where
  "non_decimal_literal t =
     (let p = toLowerCase (take 2 t); ds = drop 2 t in
      ds \<noteq> [] \<and>
      ((p = ''0x'' \<and> list_all is_hex_digit ds) \<or> (p = ''0o'' \<and> list_all is_octal_digit ds)
       \<or> (p = ''0b'' \<and> list_all is_binary_digit ds)))"

definition decimal_literal :: "string \<Rightarrow> bool" where
  "decimal_literal t =
     (let (neg, u) = split_sign t in
      u = ''Infinity'' \<or> (case unsigned_decimal u of None \<Rightarrow> False | Some (q, r) \<Rightarrow> r = []))"

definition is_number_string :: "string \<Rightarrow> bool" where
  "is_number_string s = (trim s \<noteq> [] \<and> (decimal_literal (trim s) \<or> non_decimal_literal (trim s)))"

text \<open>\<open>inferType\<close> on a parsed JSON value; its last two cases are not reached by one.\<close>

definition inferType :: "json \<Rightarrow> FieldType" where
  "inferType v =
     (case v of
        JNull \<Rightarrow> TNull
      | JArr xs \<Rightarrow> TArray
      | JNum n \<Rightarrow> TNumber
      | JBool b \<Rightarrow> TBoolean
      | JStr s \<Rightarrow> if date_like s then TDate else if is_number_string s then TNumberString else TString
      | JObj kvs \<Rightarrow> TObject)"

text \<open>The value of \<open>fields[key]\<close>; a \<open>Set\<close> is the list of its members in insertion order.\<close>

record FieldInfo =
  info_types :: "FieldType list"
  info_count :: nat

definition set_add :: "'a \<Rightarrow> 'a list \<Rightarrow> 'a list" where
  "set_add x xs = (if x \<in> set xs then xs else xs @ [x])"

datatype AnalysisResult = Failed string | Analysed "SchemaField list" nat

text \<open>
  \<open>Object.entries(item)\<close> for an item that passes \<open>typeof item === 'object'\<close> and is not
  \<open>null\<close>: an object, or an array with its indices as keys. \<open>None\<close> for every other item.
\<close>

definition entries_of :: "json \<Rightarrow> (string \<times> json) list option" where
  "entries_of item =
     (case item of
        JObj kvs \<Rightarrow> Some kvs
      | JArr xs \<Rightarrow> Some (zip (map (\<lambda>i. int_str (int i)) [0..<length xs]) xs)
      | _ \<Rightarrow> None)"

text \<open>
  The body of the inner \<open>forEach\<close>, on the two dictionaries \<open>fields\<close> and \<open>sampleValues\<close>.
  As for \<open>groups\<close>, a key that names a member of \<open>Object.prototype\<close> reads as truthy before
  it is stored, so nothing is stored, and the read of \<open>.types.add\<close> on the member that
  follows is a \<open>TypeError\<close>.
\<close>

definition init_field ::
  "(string \<times> FieldInfo) list \<times> (string \<times> string list) list \<Rightarrow> string
     \<Rightarrow> error + (string \<times> FieldInfo) list \<times> (string \<times> string list) list"
where
  "init_field st key =
     (case map_of (fst st) key of
        Some info \<Rightarrow> Inr st
      | None \<Rightarrow>
          if key \<in> set object_prototype_keys then Inl TypeError
          else Inr (fst st @ [(key, \<lparr>info_types = [], info_count = 0\<rparr>)], snd st @ [(key, [])]))"

definition entry_step ::
  "host \<Rightarrow> (string \<times> FieldInfo) list \<times> (string \<times> string list) list \<Rightarrow> string \<times> json
     \<Rightarrow> error + (string \<times> FieldInfo) list \<times> (string \<times> string list) list"
where
  "entry_step h st kv =
     (case init_field st (fst kv) of
        Inl e \<Rightarrow> Inl e
      | Inr st1 \<Rightarrow>
          (let key = fst kv; v = snd kv; ty = inferType v;
               info0 = (case map_of (fst st1) key of
                          None \<Rightarrow> \<lparr>info_types = [], info_count = 0\<rparr> | Some i \<Rightarrow> i);
               info = \<lparr>info_types = set_add ty (info_types info0),
                       info_count = info_count info0 + 1\<rparr>;
               ss = (case map_of (snd st1) key of None \<Rightarrow> [] | Some l \<Rightarrow> l)
           in if length ss < 5 \<and> v \<noteq> JNull then
                (case json_str h v of
                   Inl e \<Rightarrow> Inl e
                 | Inr str \<Rightarrow>
                     Inr (AList.update key info (fst st1),
                          AList.update key (set_add (take 50 str) ss) (snd st1)))
              else Inr (AList.update key info (fst st1), snd st1)))"

fun entries_loop ::
  "host \<Rightarrow> (string \<times> FieldInfo) list \<times> (string \<times> string list) list \<Rightarrow> (string \<times> json) list
     \<Rightarrow> error + (string \<times> FieldInfo) list \<times> (string \<times> string list) list"
where
  "entries_loop h st [] = Inr st"
| "entries_loop h st (kv # rest) =
     (case entry_step h st kv of Inl e \<Rightarrow> Inl e | Inr st' \<Rightarrow> entries_loop h st' rest)"

fun rows_loop ::
  "host \<Rightarrow> (string \<times> FieldInfo) list \<times> (string \<times> string list) list \<Rightarrow> json list
     \<Rightarrow> error + (string \<times> FieldInfo) list \<times> (string \<times> string list) list"
where
  "rows_loop h st [] = Inr st"
| "rows_loop h st (item # rest) =
     (case entries_of item of
        None \<Rightarrow> rows_loop h st rest
      | Some es \<Rightarrow>
          (case entries_loop h st es of Inl e \<Rightarrow> Inl e | Inr st' \<Rightarrow> rows_loop h st' rest))"

text \<open>\<open>Math.round((info.count / data.length) * 100)\<close>.\<close>

definition coverage_of :: "host \<Rightarrow> nat \<Rightarrow> nat \<Rightarrow> jsnum" where
  "coverage_of h cnt n_rows =
     Math_round (num_mul h (num_div h (Fin (of_nat cnt)) (Fin (of_nat n_rows))) (Fin 100))"

definition schema_field ::
  "host \<Rightarrow> nat \<Rightarrow> (string \<times> string list) list \<Rightarrow> string \<times> FieldInfo \<Rightarrow> SchemaField"
where
  "schema_field h n_rows sampleValues e =
     \<lparr>name = fst e,
      ftype = (case info_types (snd e) of [t] \<Rightarrow> t | _ \<Rightarrow> TMixed),
      types = info_types (snd e),
      coverage = coverage_of h (info_count (snd e)) n_rows,
      samples = (case map_of sampleValues (fst e) of None \<Rightarrow> [] | Some l \<Rightarrow> l)\<rparr>"

definition analyzeSchema :: "host \<Rightarrow> json list \<Rightarrow> error + AnalysisResult" where
  "analyzeSchema h data =
     (if data = [] then Inr (Failed ''Data must be a non-empty array of objects'')
      else (case rows_loop h ([], []) data of
              Inl e \<Rightarrow> Inl e
            | Inr st \<Rightarrow>
                Inr (Analysed (map (schema_field h (length data) (snd st)) (own_entries (fst st)))
                       (length data))))"

section \<open>Vocabulary of the statements\<close>

subsection \<open>Intent resolution\<close>

text \<open>A field is mentioned when its lower-cased name occurs in the lower-cased text.\<close>

definition mentioned :: "string \<Rightarrow> SchemaField \<Rightarrow> bool" where
  "mentioned msg f = str_includes msg (toLowerCase (name f))"

definition x_typed :: "SchemaField \<Rightarrow> bool" where
  "x_typed f = (ftype f = TDate \<or> ftype f = TString)"

definition y_typed :: "SchemaField \<Rightarrow> bool" where
  "y_typed f = (ftype f = TNumber \<or> ftype f = TNumberString)"

definition first_x_mention :: "string \<Rightarrow> SchemaField list \<Rightarrow> SchemaField option" where
  "first_x_mention msg schema = find (\<lambda>f. mentioned msg f \<and> x_typed f) schema"

definition first_named_x_mention :: "string \<Rightarrow> SchemaField list \<Rightarrow> SchemaField option" where
  "first_named_x_mention msg schema =
     find (\<lambda>f. mentioned msg f \<and> x_typed f \<and> name f \<noteq> []) schema"

definition last_y_mention :: "string \<Rightarrow> SchemaField list \<Rightarrow> SchemaField option" where
  "last_y_mention msg schema = find (\<lambda>f. mentioned msg f \<and> y_typed f) (rev schema)"

definition is_date_field :: "SchemaField \<Rightarrow> bool" where
  "is_date_field f = (ftype f = TDate)"

definition is_string_field :: "SchemaField \<Rightarrow> bool" where
  "is_string_field f = (ftype f = TString)"

text \<open>The fallback chain for the x-field, as the specification words it.\<close>

definition x_chain :: "SchemaField list \<Rightarrow> string" where
  "x_chain schema =
     (case find is_date_field schema of
        Some f \<Rightarrow> name f
      | None \<Rightarrow> (case find is_string_field schema of
                   Some f \<Rightarrow> name f
                 | None \<Rightarrow> name (hd schema)))"

subsection \<open>Schema inference\<close>









subsection \<open>Data transformation\<close>

text \<open>The condition \<open>config.groupBy && config.xField\<close> of the grouped path.\<close>

definition grouping :: "ChartConfig \<Rightarrow> bool" where
  "grouping config = (groupBy config \<noteq> None \<and> xField config \<noteq> [])"

text \<open>
  A row's filter-field value has a string (\<open>String\<close> does not throw), and a row
  matches: the lower-cased string equals the lower-cased filter value.
\<close>

definition stringifies :: "host \<Rightarrow> FilterSpec \<Rightarrow> DataRow \<Rightarrow> bool" where
  "stringifies h f r = (case ToString h (get_prop r (field f)) of Inl e \<Rightarrow> False | Inr s \<Rightarrow> True)"

definition matches :: "host \<Rightarrow> FilterSpec \<Rightarrow> DataRow \<Rightarrow> bool" where
  "matches h f r =
     (case ToString h (get_prop r (field f)) of
        Inl e \<Rightarrow> False
      | Inr s \<Rightarrow> toLowerCase s = toLowerCase (fvalue f))"

text \<open>
  The rows retained after filtering, as the specification words the filter step: all
  rows without a filter, the matching rows with one.
\<close>

definition retained :: "host \<Rightarrow> ChartConfig \<Rightarrow> DataRow list \<Rightarrow> DataRow list" where
  "retained h config data =
     (case filter_f config of None \<Rightarrow> data | Some f \<Rightarrow> filter (matches h f) data)"

text \<open>
  The bucket key of a row, as the specification words the key extraction: the
  stringified x-field value, the empty string for an absent one, replaced by the month,
  the year or the week of the month when a bucket of that kind is set and the value is a
  date.
\<close>

definition raw_label :: "host \<Rightarrow> ChartConfig \<Rightarrow> DataRow \<Rightarrow> string" where
  "raw_label h config r =
     (let v = get_prop r (xField config)
      in if truthy v then (case ToString h v of Inl e \<Rightarrow> [] | Inr s \<Rightarrow> s) else [])"

definition bucket_key :: "host \<Rightarrow> ChartConfig \<Rightarrow> DataRow \<Rightarrow> string" where
  "bucket_key h config r =
     (let s = raw_label h config r in
      if s = [] then s
      else
        (case Date_parse h s of
           None \<Rightarrow> s
         | Some t \<Rightarrow>
             (case groupBy config of
                Some Month \<Rightarrow>
                  int_str (getFullYear h t) @ ''-'' @ padStart2 (int_str (getMonth h t + 1))
              | Some Year \<Rightarrow> int_str (getFullYear h t)
              | Some Week \<Rightarrow>
                  int_str (getFullYear h t) @ ''-W''
                    @ int_str \<lceil>(of_int (getDate h t) :: rat) / 7\<rceil>
              | _ \<Rightarrow> s)))"

text \<open>The rows stored in the dictionary \<open>groups\<close>.\<close>

definition rows_of :: "(string \<times> DataRow list) list \<Rightarrow> DataRow set" where
  "rows_of groups = (\<Union>kv\<in>set groups. set (snd kv))"

text \<open>
  Rows that the transform can read: \<open>String\<close> throws on none of the three values it
  takes from a row.
\<close>

definition has_string :: "host \<Rightarrow> string \<Rightarrow> DataRow \<Rightarrow> bool" where
  "has_string h k r = (case ToString h (get_prop r k) of Inl e \<Rightarrow> False | Inr s \<Rightarrow> True)"

definition readable :: "host \<Rightarrow> ChartConfig \<Rightarrow> DataRow \<Rightarrow> bool" where
  "readable h config r =
     ((case filter_f config of None \<Rightarrow> True | Some f \<Rightarrow> stringifies h f r)
      \<and> has_string h (xField config) r \<and> has_string h (yField config) r)"

section \<open>Hosts and data for instances\<close>

text \<open>
  A host to instantiate the statements with: local time is a fixed number of minutes
  east of UTC, no string outside the date-only forms parses as a date, and strings are
  collated by character code, the order every collation gives to strings of digits and
  hyphens. The numbers that the instances on this host compute are integers, which are
  doubles, so that rounding leaves them as they are; the last two components are not
  exercised.
\<close>

fun compare_codes :: "string \<Rightarrow> string \<Rightarrow> int" where
  "compare_codes [] [] = 0"
| "compare_codes [] (d # b) = - 1"
| "compare_codes (c # a) [] = 1"
| "compare_codes (c # a) (d # b) =
     (if (of_char c :: nat) < of_char d then - 1
      else if (of_char d :: nat) < of_char c then 1
      else compare_codes a b)"

definition zone_host :: "int \<Rightarrow> host" where
  "zone_host minutes =
     \<lparr>localTZA = (\<lambda>t. minutes * 60000),
      parse_other = (\<lambda>s. None),
      collate = compare_codes,
      rnd = Fin,
      num_str = (\<lambda>q. []),
      fun_str = (\<lambda>k. ''function '' @ k @ ''() { [native code] }'')\<rparr>"

text \<open>The schema, the rows and the configuration of the specification's example.\<close>

definition revenue_schema :: "SchemaField list" where
  "revenue_schema =
     [\<lparr>name = ''date'', ftype = TDate, types = [TDate], coverage = Fin 100, samples = []\<rparr>,
      \<lparr>name = ''revenue'', ftype = TNumber, types = [TNumber], coverage = Fin 100, samples = []\<rparr>]"

definition row_jan_1 :: DataRow where
  "row_jan_1 = [(''date'', JStr ''2024-01-01''), (''revenue'', JNum (Fin 10))]"

definition row_jan_15 :: DataRow where
  "row_jan_15 = [(''date'', JStr ''2024-01-15''), (''revenue'', JNum (Fin 20))]"

definition row_feb_1 :: DataRow where
  "row_feb_1 = [(''date'', JStr ''2024-02-01''), (''revenue'', JNum (Fin 5))]"

definition revenue_rows :: "DataRow list" where
  "revenue_rows = [row_jan_1, row_jan_15, row_feb_1]"

definition month_config :: ChartConfig where
  "month_config =
     \<lparr>chartType = Bar, xField = ''date'', yField = ''revenue'', labelField = None,
      groupBy = Some Month, filter_f = None, aggregate = Sum, color = ''#3b82f6'',
      title = ''revenue by date''\<rparr>"

text \<open>Hosts whose local time is UTC or ahead of it by less than a day.\<close>

definition east_of_utc :: "host \<Rightarrow> bool" where
  "east_of_utc h = (\<forall>t. 0 \<le> localTZA h t \<and> localTZA h t < 86400000)"

text \<open>
  The configuration that \<open>line chart of revenue over time\<close> resolves to over
  \<open>revenue_schema\<close>, and a row without the x-field.
\<close>

definition plain_config :: ChartConfig where
  "plain_config =
     \<lparr>chartType = Line, xField = ''date'', yField = ''revenue'', labelField = None,
      groupBy = None, filter_f = None, aggregate = Sum, color = ''#3b82f6'',
      title = ''revenue by date''\<rparr>"

definition row_no_date :: DataRow where
  "row_no_date = [(''revenue'', JNum (Fin 10))]"

definition row_bad_date :: DataRow where
  "row_bad_date = [(''date'', JStr ''n/a''), (''revenue'', JNum (Fin 10))]"

text \<open>Rows with a status, one of them without the field, and a filter on the status.\<close>

definition status_schema :: "SchemaField list" where
  "status_schema =
     [\<lparr>name = ''status'', ftype = TString, types = [TString], coverage = Fin 67, samples = []\<rparr>,
      \<lparr>name = ''revenue'', ftype = TNumber, types = [TNumber], coverage = Fin 100, samples = []\<rparr>]"

definition row_active :: DataRow where
  "row_active = [(''status'', JStr ''Active''), (''revenue'', JNum (Fin 10))]"

definition row_closed :: DataRow where
  "row_closed = [(''status'', JStr ''closed''), (''revenue'', JNum (Fin 5))]"

definition row_no_status :: DataRow where
  "row_no_status = [(''revenue'', JNum (Fin 7))]"

definition status_rows :: "DataRow list" where
  "status_rows = [row_active, row_closed, row_no_status]"

definition status_filter :: "string \<Rightarrow> FilterSpec" where
  "status_filter v = \<lparr>field = ''status'', fvalue = v\<rparr>"

definition status_config :: "string \<Rightarrow> ChartConfig" where
  "status_config v =
     \<lparr>chartType = Line, xField = ''status'', yField = ''revenue'', labelField = None,
      groupBy = None, filter_f = Some (status_filter v), aggregate = Sum,
      color = ''#3b82f6'', title = ''revenue by status''\<rparr>"

text \<open>
  The data \<open>[{"name": "constructor", "calls": 3}]\<close> and the configuration that
  \<open>bar chart of calls by name by day\<close> resolves to over its schema.
\<close>

definition calls_schema :: "SchemaField list" where
  "calls_schema =
     [\<lparr>name = ''name'', ftype = TString, types = [TString], coverage = Fin 100, samples = []\<rparr>,
      \<lparr>name = ''calls'', ftype = TNumber, types = [TNumber], coverage = Fin 100, samples = []\<rparr>]"

definition calls_rows :: "DataRow list" where
  "calls_rows = [[(''name'', JStr ''constructor''), (''calls'', JNum (Fin 3))]]"

definition day_config :: ChartConfig where
  "day_config =
     \<lparr>chartType = Bar, xField = ''name'', yField = ''calls'', labelField = None,
      groupBy = Some Day, filter_f = None, aggregate = Sum, color = ''#3b82f6'',
      title = ''calls by name''\<rparr>"

text \<open>Schemas used to instantiate the statements.\<close>

definition example_schema :: "SchemaField list" where
  "example_schema =
     [\<lparr>name = ''date'', ftype = TDate, types = [TDate], coverage = Fin 100, samples = []\<rparr>,
      \<lparr>name = ''region'', ftype = TString, types = [TString], coverage = Fin 100, samples = []\<rparr>,
      \<lparr>name = ''revenue'', ftype = TNumber, types = [TNumber], coverage = Fin 100, samples = []\<rparr>,
      \<lparr>name = ''cost'', ftype = TNumber, types = [TNumber], coverage = Fin 100, samples = []\<rparr>]"

text \<open>The schema of the data \<open>[{"": "north", "city": "Oslo"}]\<close>: one key is the empty string.\<close>

definition unnamed_schema :: "SchemaField list" where
  "unnamed_schema =
     [\<lparr>name = [], ftype = TString, types = [TString], coverage = Fin 100, samples = [''north'']\<rparr>,
      \<lparr>name = ''city'', ftype = TString, types = [TString], coverage = Fin 100, samples = [''Oslo'']\<rparr>]"

text \<open>A chat waiting for input, with a request typed in.\<close>

definition idle_state :: ChatState where
  "idle_state = \<lparr>messages = [], input = '' bar chart '', isLoading = False, chartConfig = None\<rparr>"

text \<open>
  Rows with a region in three spellings, and the configuration that
  \<open>bar chart of revenue by date by month where region = north\<close> resolves to over their
  schema: a filter and a month bucket.
\<close>

definition region_schema :: "SchemaField list" where
  "region_schema =
     [\<lparr>name = ''date'', ftype = TDate, types = [TDate], coverage = Fin 100, samples = []\<rparr>,
      \<lparr>name = ''region'', ftype = TString, types = [TString], coverage = Fin 100, samples = []\<rparr>,
      \<lparr>name = ''revenue'', ftype = TNumber, types = [TNumber], coverage = Fin 100, samples = []\<rparr>]"

definition row_north_jan_1 :: DataRow where
  "row_north_jan_1 =
     [(''date'', JStr ''2024-01-01''), (''region'', JStr ''North''), (''revenue'', JNum (Fin 10))]"

definition row_north_jan_15 :: DataRow where
  "row_north_jan_15 =
     [(''date'', JStr ''2024-01-15''), (''region'', JStr ''north''), (''revenue'', JNum (Fin 20))]"

definition row_south_feb_1 :: DataRow where
  "row_south_feb_1 =
     [(''date'', JStr ''2024-02-01''), (''region'', JStr ''South''), (''revenue'', JNum (Fin 5))]"

definition row_north_feb_10 :: DataRow where
  "row_north_feb_10 =
     [(''date'', JStr ''2024-02-10''), (''region'', JStr ''NORTH''), (''revenue'', JNum (Fin 7))]"

definition region_rows :: "DataRow list" where
  "region_rows = [row_north_jan_1, row_north_jan_15, row_south_feb_1, row_north_feb_10]"

definition north_config :: ChartConfig where
  "north_config =
     \<lparr>chartType = Bar, xField = ''date'', yField = ''revenue'', labelField = None,
      groupBy = Some Month, filter_f = Some \<lparr>field = ''region'', fvalue = ''north''\<rparr>,
      aggregate = Sum, color = ''#3b82f6'', title = ''revenue by date''\<rparr>"




text \<open>The data \<open>[{"constructor": 1}]\<close>.\<close>

definition constructor_rows :: "json list" where
  "constructor_rows = [JObj [(''constructor'', JNum (Fin 1))]]"

section \<open>Properties of chart intent resolution\<close>

subsection \<open>The detection loop\<close>

lemma detect_y_foldl:
  "snd (foldl (detect_step msg) (x0, y0) schema) =
     (case last_y_mention msg schema of None \<Rightarrow> y0 | Some f \<Rightarrow> Some (name f))"
proof (induction schema arbitrary: x0 y0 rule: rev_induct)
  case Nil
  then show ?case by (simp add: last_y_mention_def)
next
  case (snoc f fs)
  show ?case
    using snoc[of x0 y0]
    by (auto simp: last_y_mention_def detect_step_def mentioned_def y_typed_def Let_def
        split: option.splits)
qed

lemma detect_x_foldl_named:
  "x0 \<noteq> None \<Longrightarrow> x0 \<noteq> Some [] \<Longrightarrow> fst (foldl (detect_step msg) (x0, y0) schema) = x0"
  by (induction schema arbitrary: y0) (auto simp: detect_step_def falsy_field_def Let_def)

lemma detect_x_foldl:
  "falsy_field x0 \<Longrightarrow>
   fst (foldl (detect_step msg) (x0, y0) schema) =
     (case first_named_x_mention msg schema of
        Some f \<Rightarrow> Some (name f)
      | None \<Rightarrow> (case first_x_mention msg schema of None \<Rightarrow> x0 | Some f \<Rightarrow> Some []))"
proof (induction schema arbitrary: x0 y0)
  case Nil
  then show ?case by (simp add: first_named_x_mention_def first_x_mention_def)
next
  case (Cons f fs)
  show ?case
  proof (cases "mentioned msg f \<and> x_typed f")
    case False
    then have "fst (detect_step msg (x0, y0) f) = x0"
      by (auto simp: detect_step_def mentioned_def x_typed_def Let_def)
    then obtain y1 where st: "detect_step msg (x0, y0) f = (x0, y1)"
      by (cases "detect_step msg (x0, y0) f") auto
    show ?thesis
      using Cons.IH[OF Cons.prems, of y1] False st
      by (auto simp: first_named_x_mention_def first_x_mention_def split: option.splits)
  next
    case True
    then obtain y1 where st: "detect_step msg (x0, y0) f = (Some (name f), y1)"
      using Cons.prems
      by (cases "detect_step msg (x0, y0) f")
         (auto simp: detect_step_def mentioned_def x_typed_def Let_def)
    show ?thesis
    proof (cases "name f = []")
      case True
      have ff: "falsy_field (Some (name f))" using True by (simp add: falsy_field_def)
      show ?thesis
        using Cons.IH[OF ff, of y1] st True \<open>mentioned msg f \<and> x_typed f\<close>
        by (auto simp: first_named_x_mention_def first_x_mention_def split: option.splits)
    next
      case False
      then show ?thesis
        using st True detect_x_foldl_named[of "Some (name f)" msg y1 fs]
        by (auto simp: first_named_x_mention_def first_x_mention_def split: option.splits)
    qed
  qed
qed

lemma detect_fields_y:
  "snd (detect_fields msg schema) = map_option name (last_y_mention msg schema)"
  unfolding detect_fields_def detect_y_foldl by (simp split: option.splits)

lemma detect_fields_x:
  "fst (detect_fields msg schema) =
     (case first_named_x_mention msg schema of
        Some f \<Rightarrow> Some (name f)
      | None \<Rightarrow> (case first_x_mention msg schema of None \<Rightarrow> None | Some f \<Rightarrow> Some []))"
  unfolding detect_fields_def by (rule detect_x_foldl) (simp add: falsy_field_def)

lemma first_named_x_mention_name:
  "first_named_x_mention msg schema = Some f \<Longrightarrow> name f \<noteq> []"
  by (auto simp: first_named_x_mention_def find_Some_iff)

lemma first_named_x_mention_mem:
  "first_named_x_mention msg schema = Some f \<Longrightarrow> f \<in> set schema"
  by (auto simp: first_named_x_mention_def find_Some_iff)

lemma lower_example: "toLowerCase ''Revenue and COST per Region'' = ''revenue and cost per region''"
  by code_simp

lemma example_first_x:
  "first_named_x_mention ''revenue and cost per region'' example_schema = Some (example_schema ! 1)"
  by (simp add: first_named_x_mention_def example_schema_def mentioned_def x_typed_def
      toLowerCase_def lower_char_def)

lemma example_last_y:
  "last_y_mention ''revenue and cost per region'' example_schema = Some (example_schema ! 3)"
  by (simp add: last_y_mention_def example_schema_def mentioned_def y_typed_def
      toLowerCase_def lower_char_def)

text \<open>
  C5, as amended. After the detection loop the y-candidate is the name of the last
  mentioned field of type number or numeric string (none when there is no such field);
  the x-candidate is the name of the first mentioned field of type date or string whose
  name is not empty, and that name is the configuration's x-field. The y-candidate is the
  configuration's y-field when it is not the empty string.
\<close>

theorem field_detection:
  "\<exists>cfg. generateChartConfig (Some schema) txt = Inr cfg \<and>
     snd (detect_fields (toLowerCase txt) schema)
       = map_option name (last_y_mention (toLowerCase txt) schema) \<and>
     (\<forall>f. first_named_x_mention (toLowerCase txt) schema = Some f \<longrightarrow>
        fst (detect_fields (toLowerCase txt) schema) = Some (name f) \<and> xField cfg = name f) \<and>
     (\<forall>g. last_y_mention (toLowerCase txt) schema = Some g \<longrightarrow> name g \<noteq> [] \<longrightarrow>
        yField cfg = name g)"
proof -
  let ?msg = "toLowerCase txt"
  obtain cfg where cfg: "generateChartConfig (Some schema) txt = Inr cfg"
    by (simp add: generateChartConfig_def Let_def)
  have x: "xField cfg = name f" if "first_named_x_mention ?msg schema = Some f" for f
    using cfg that first_named_x_mention_name[OF that]
    by (auto simp: generateChartConfig_def Let_def detect_fields_x or_str_def)
  have y: "yField cfg = name g" if "last_y_mention ?msg schema = Some g" "name g \<noteq> []" for g
    using cfg that
    by (auto simp: generateChartConfig_def Let_def detect_fields_y or_str_def)
  show ?thesis
    using cfg x y by (auto simp: detect_fields_y detect_fields_x)
qed

theorem field_detection_witness:
  "\<exists>cfg. generateChartConfig (Some example_schema) ''Revenue and COST per Region'' = Inr cfg \<and>
     xField cfg = ''region'' \<and> yField cfg = ''cost''"
  using field_detection[of example_schema "''Revenue and COST per Region''"]
  unfolding lower_example example_first_x example_last_y
  by (auto simp: example_schema_def)

text \<open>
  C5 as stated fails: in \<open>unnamed_schema\<close> the first mentioned string field is the one
  whose name is the empty string (the empty string occurs in every text), yet the loop
  ends with the later field \<open>city\<close>, which overwrote it.
\<close>

theorem field_detection_counterexample:
  "first_x_mention (toLowerCase ''sales per city'') unnamed_schema = Some (unnamed_schema ! 0)
   \<and> name (unnamed_schema ! 0) = []
   \<and> fst (detect_fields (toLowerCase ''sales per city'') unnamed_schema) = Some ''city''
   \<and> generateChartConfig (Some unnamed_schema) ''sales per city'' =
       Inr \<lparr>chartType = Line, xField = ''city'', yField = ''city'', labelField = None,
            groupBy = None, filter_f = None, aggregate = Sum, color = ''#3b82f6'',
            title = ''city by city''\<rparr>"
  by code_simp

text \<open>
  C6. The bucket of the configuration is decided by the phrases in the lower-cased
  text, \<open>by year\<close> before \<open>by day\<close> before \<open>by week\<close> before \<open>by month\<close>: the check
  evaluated last wins, and there is no bucket when no phrase occurs.
\<close>

theorem groupBy_last_check_wins:
  "\<exists>cfg. generateChartConfig (Some schema) txt = Inr cfg \<and>
     groupBy cfg =
       (if str_includes (toLowerCase txt) ''by year'' then Some Year
        else if str_includes (toLowerCase txt) ''by day'' then Some Day
        else if str_includes (toLowerCase txt) ''by week'' then Some Week
        else if str_includes (toLowerCase txt) ''by month'' then Some Month
        else None)"
  by (simp add: generateChartConfig_def detect_groupBy_def Let_def)

lemma lower_by_example: "toLowerCase ''sales by month and by year'' = ''sales by month and by year''"
  by code_simp

theorem groupBy_last_check_wins_witness:
  "\<exists>cfg. generateChartConfig (Some example_schema) ''sales by month and by year'' = Inr cfg \<and>
     groupBy cfg = Some Year"
  using groupBy_last_check_wins[of example_schema "''sales by month and by year''"]
  unfolding lower_by_example by simp

subsection \<open>The x-field and the schema\<close>

lemma find_mem: "find P xs = Some x \<Longrightarrow> x \<in> set xs"
  by (auto simp: find_Some_iff)

lemma fallback_x_mem: "schema \<noteq> [] \<Longrightarrow> fallback_x schema \<in> name ` set schema"
proof -
  assume ne: "schema \<noteq> []"
  then have h: "hd schema \<in> set schema" by simp
  have n0: "nth_opt schema 0 = Some (hd schema)"
    using ne by (cases schema) (auto simp: nth_opt_def)
  have base: "name_or (nth_opt schema 0) [] = name (hd schema)"
    unfolding n0 by (simp add: name_or_def)
  show ?thesis
    unfolding fallback_x_def base
    using h by (auto simp: name_or_def dest: find_mem split: option.splits)
qed

lemma fallback_x_chain:
  "schema \<noteq> [] \<Longrightarrow> \<forall>f\<in>set schema. name f \<noteq> [] \<Longrightarrow> fallback_x schema = x_chain schema"
proof -
  assume ne: "schema \<noteq> []" and named: "\<forall>f\<in>set schema. name f \<noteq> []"
  have n0: "nth_opt schema 0 = Some (hd schema)"
    using ne by (cases schema) (auto simp: nth_opt_def)
  have d: "find (\<lambda>f. ftype f = TDate) schema = find is_date_field schema"
    by (simp add: is_date_field_def[abs_def])
  have s: "find (\<lambda>f. ftype f = TString) schema = find is_string_field schema"
    by (simp add: is_string_field_def[abs_def])
  show ?thesis
    unfolding fallback_x_def x_chain_def n0 d s
    using named ne by (auto simp: name_or_def dest: find_mem split: option.splits)
qed

lemma first_named_eq_first:
  "\<forall>f\<in>set schema. name f \<noteq> [] \<Longrightarrow> first_named_x_mention msg schema = first_x_mention msg schema"
  unfolding first_named_x_mention_def first_x_mention_def
  by (rule find_cong) auto

text \<open>
  C10, as amended. For a non-empty schema the x-field of the configuration is the name
  of a field of the schema. When no field of the schema has the empty name, the x-field
  is not empty, and it is the name of the first mentioned date or string field, or
  without one the name of the first date field, else of the first string field, else of
  the first field.
\<close>

theorem xField_from_schema:
  "schema \<noteq> [] \<Longrightarrow>
   \<exists>cfg. generateChartConfig (Some schema) txt = Inr cfg \<and>
     xField cfg \<in> name ` set schema \<and>
     ((\<forall>f\<in>set schema. name f \<noteq> []) \<longrightarrow>
        xField cfg \<noteq> [] \<and>
        xField cfg = (case first_x_mention (toLowerCase txt) schema of
                        Some f \<Rightarrow> name f
                      | None \<Rightarrow> x_chain schema))"
proof -
  assume ne: "schema \<noteq> []"
  let ?msg = "toLowerCase txt"
  obtain cfg where cfg: "generateChartConfig (Some schema) txt = Inr cfg"
    by (simp add: generateChartConfig_def Let_def)
  have xf: "xField cfg =
      (case first_named_x_mention ?msg schema of Some f \<Rightarrow> name f | None \<Rightarrow> fallback_x schema)"
    using cfg
    by (auto simp: generateChartConfig_def Let_def detect_fields_x or_str_def
        dest: first_named_x_mention_name split: option.splits)
  have mem: "xField cfg \<in> name ` set schema"
    unfolding xf using fallback_x_mem[OF ne]
    by (auto dest: first_named_x_mention_mem split: option.splits)
  have named: "xField cfg \<noteq> [] \<and>
      xField cfg = (case first_x_mention ?msg schema of Some f \<Rightarrow> name f | None \<Rightarrow> x_chain schema)"
    if all: "\<forall>f\<in>set schema. name f \<noteq> []"
  proof -
    have "xField cfg \<noteq> []" using mem all by auto
    moreover have "xField cfg =
        (case first_x_mention ?msg schema of Some f \<Rightarrow> name f | None \<Rightarrow> x_chain schema)"
      unfolding xf first_named_eq_first[OF all] fallback_x_chain[OF ne all] ..
    ultimately show ?thesis by simp
  qed
  show ?thesis using cfg mem named by blast
qed

lemma example_no_x: "first_x_mention (toLowerCase ''revenue and cost'') example_schema = None"
  by (simp add: first_x_mention_def example_schema_def mentioned_def x_typed_def
      toLowerCase_def lower_char_def)

theorem xField_from_schema_witness:
  "example_schema \<noteq> [] \<and> [] \<notin> name ` set example_schema \<and>
   (\<exists>cfg. generateChartConfig (Some example_schema) ''revenue and cost'' = Inr cfg \<and>
      xField cfg = ''date'')"
proof -
  have ne: "example_schema \<noteq> []" by (simp add: example_schema_def)
  have all: "\<forall>f\<in>set example_schema. name f \<noteq> []" by (simp add: example_schema_def)
  have ch: "x_chain example_schema = ''date''"
    by (simp add: x_chain_def example_schema_def is_date_field_def)
  show ?thesis
    using xField_from_schema[OF ne, of "''revenue and cost''"] ne all
    unfolding example_no_x ch by auto
qed

text \<open>
  C10 as stated fails: \<open>unnamed_schema\<close> is not empty and the x-field resolved over it is
  the empty string.
\<close>

theorem xField_from_schema_counterexample:
  "unnamed_schema \<noteq> [] \<and>
   generateChartConfig (Some unnamed_schema) ''pie chart'' =
     Inr \<lparr>chartType = Pie, xField = [], yField = ''city'', labelField = Some [],
          groupBy = None, filter_f = None, aggregate = Sum, color = ''#3b82f6'',
          title = ''city by Category''\<rparr>"
  by (simp add: unnamed_schema_def generateChartConfig_def Let_def detect_fields_def
      detect_step_def falsy_field_def toLowerCase_def lower_char_def detect_chartType_def
      fallback_x_def fallback_y_def name_or_def nth_opt_def or_str_def detect_groupBy_def
      detect_aggregate_def detect_color_def match_filter_at_def strip_keyword_def)

subsection \<open>Failure of the resolution\<close>

text \<open>
  C2, as amended. The resolution throws exactly when there is no schema (\<open>null\<close>); for
  every schema array, the empty one included, it returns a configuration. A submission
  that passes the guard of \<open>handleSubmit\<close> without a schema appends the user's message
  and the fallback message and leaves the stored configuration as it was; with a schema
  it stores the configuration resolved from the trimmed input.
\<close>

theorem error_only_without_schema:
  "generateChartConfig None txt = Inl (Error ''No schema available'') \<and>
   (\<exists>cfg. generateChartConfig (Some schema) txt = Inr cfg) \<and>
   (trim (input st) \<noteq> [] \<longrightarrow> \<not> isLoading st \<longrightarrow> \<not> disabled \<longrightarrow>
      handleSubmit None disabled st =
        st\<lparr>input := [],
           messages := messages st @ [\<lparr>role = User, content = trim (input st)\<rparr>,
                                     \<lparr>role = Assistant, content = fallback_text\<rparr>],
           isLoading := False\<rparr>
      \<and> chartConfig (handleSubmit None disabled st) = chartConfig st
      \<and> (\<exists>c. generateChartConfig (Some schema) (trim (input st)) = Inr c \<and>
             chartConfig (handleSubmit (Some schema) disabled st) = Some c))"
proof -
  have none: "generateChartConfig None u = Inl (Error ''No schema available'')" for u
    by (simp add: generateChartConfig_def)
  obtain cfg where cfg: "generateChartConfig (Some schema) txt = Inr cfg"
    by (simp add: generateChartConfig_def Let_def)
  obtain c where c: "generateChartConfig (Some schema) (trim (input st)) = Inr c"
    by (simp add: generateChartConfig_def Let_def)
  show ?thesis
    using cfg c by (auto simp: handleSubmit_def Let_def none)
qed

lemma trim_example: "trim '' bar chart '' = ''bar chart''"
  by (simp add: trim_def is_space_def)

theorem error_only_without_schema_witness:
  "handleSubmit None False idle_state =
     \<lparr>messages = [\<lparr>role = User, content = ''bar chart''\<rparr>,
                  \<lparr>role = Assistant, content = fallback_text\<rparr>],
      input = [], isLoading = False, chartConfig = None\<rparr>"
  using error_only_without_schema[of "''bar chart''" "[]" idle_state False]
  by (simp add: idle_state_def trim_example)

text \<open>C2 as stated fails: over the empty schema the resolution returns a configuration.\<close>

theorem error_only_without_schema_counterexample:
  "generateChartConfig (Some []) ''bar chart'' =
     Inr \<lparr>chartType = Bar, xField = [], yField = [], labelField = None, groupBy = None,
          filter_f = None, aggregate = Sum, color = ''#3b82f6'', title = ''Value by Category''\<rparr>"
  by (simp add: generateChartConfig_def Let_def detect_fields_def
      toLowerCase_def lower_char_def detect_chartType_def
      fallback_x_def fallback_y_def name_or_def nth_opt_def or_str_def detect_groupBy_def
      detect_aggregate_def detect_color_def match_filter_at_def strip_keyword_def)

section \<open>Properties of the rounding\<close>

text \<open>
  \<open>ilog2\<close> is the binary exponent of a positive number. The rounding of binary64 is
  within a relative error of \<open>2^-53\<close> of the exact result, away from overflow and
  underflow. The percentage \<open>Math.round((c / n) * 100)\<close> is computed with two such
  roundings; for an array of fewer than \<open>2^32\<close> rows their error is smaller than the
  distance of the exact percentage from the nearest half-integer, unless the exact
  percentage is itself halfway between two integers.
\<close>

lemma bit_length_bounds: "0 < n \<Longrightarrow> 2 ^ (bit_length n - 1) \<le> n \<and> n < 2 ^ bit_length n"
proof (induction n rule: bit_length.induct)
  case (1 n)
  show ?case
  proof (cases "n div 2 \<le> 0")
    case True
    then have "n = 1" using 1(2) by auto
    then show ?thesis by (simp add: bit_length.simps)
  next
    case False
    then have ih: "2 ^ (bit_length (n div 2) - 1) \<le> n div 2 \<and> n div 2 < 2 ^ bit_length (n div 2)"
      using 1 by auto
    have bl: "bit_length n = Suc (bit_length (n div 2))"
      using 1(2) by (subst bit_length.simps) simp
    have pos: "0 < bit_length (n div 2)"
      using False by (subst bit_length.simps) simp
    then obtain m where m: "bit_length (n div 2) = Suc m" by (cases "bit_length (n div 2)") auto
    show ?thesis using ih unfolding bl m by auto
  qed
qed


lemma ilog2_less:
  assumes "0 < q"
  shows "q < 2 powi (ilog2 q + 1)"
proof -
  obtain a b where ab: "quotient_of q = (a, b)" by (cases "quotient_of q")
  have b: "0 < b" using quotient_of_denom_pos[OF ab] .
  have q: "q = of_int a / of_int b" using quotient_of_div[OF ab] .
  have a: "0 < a" using assms b unfolding q by (simp add: zero_less_divide_iff)
  define la where "la = bit_length a"
  define lb where "lb = bit_length b"
  have A: "a < 2 ^ la" and B: "2 ^ (lb - 1) \<le> b"
    using bit_length_bounds[of a] bit_length_bounds[of b] a b
    by (simp_all add: la_def lb_def)
  have lb: "0 < lb" using b by (simp add: lb_def bit_length.simps[of b])
  show ?thesis
  proof (cases "(2::rat) powi (int la - int lb) \<le> q")
    case True
    then have e: "ilog2 q = int la - int lb"
      by (simp add: ilog2_def ab la_def lb_def)
    obtain m where m: "lb = Suc m" using lb by (cases lb) auto
    have "ilog2 q + 1 = int la - int m" unfolding e m by simp
    then have p: "(2::rat) powi (ilog2 q + 1) = 2 ^ la / 2 ^ (lb - 1)"
      by (simp add: power_int_diff m)
    have "(of_int a :: rat) < of_int (2 ^ la)" using A by (simp only: of_int_less_iff)
    then have a': "(of_int a :: rat) < 2 ^ la" by simp
    have "(of_int (2 ^ (lb - 1)) :: rat) \<le> of_int b" using B by (simp only: of_int_le_iff)
    then have b': "(2::rat) ^ (lb - 1) \<le> of_int b" by simp
    have "of_int a / of_int b < (2::rat) ^ la / 2 ^ (lb - 1)"
      by (rule frac_less) (use a a' b' in simp_all)
    then show ?thesis using q p by simp
  next
    case False
    then have "ilog2 q + 1 = int la - int lb"
      by (simp add: ilog2_def ab la_def lb_def)
    then show ?thesis using False by simp
  qed
qed







section \<open>Properties of schema inference\<close>







lemma set_own_entries: "set (own_entries kvs) = set kvs"
  by (auto simp: own_entries_def)






















text \<open>
  The proviso on the keys is needed: on a key that names a member of
  \<open>Object.prototype\<close> the inference throws.
\<close>

lemma analyzeSchema_prototype_key: "analyzeSchema h constructor_rows = Inl TypeError"
  by (simp add: analyzeSchema_def constructor_rows_def entries_of_def entry_step_def
      init_field_def object_prototype_keys_def)


section \<open>Properties of the data transformation\<close>

subsection \<open>The steps of the pipeline\<close>

lemma map_e_length: "map_e f xs = Inr ys \<Longrightarrow> length ys = length xs"
  by (induction xs arbitrary: ys) (auto split: sum.splits)

lemma length_insert_by: "length (insert_by cmp x xs) = Suc (length xs)"
  by (induction xs) auto

lemma length_sort_by: "length (sort_by cmp xs) = length xs"
  by (induction xs) (auto simp: length_insert_by)

lemma length_own_entries: "length (own_entries kvs) = length kvs"
  by (simp add: own_entries_def sum_length_filter_compl)

lemma group_push_keys:
  assumes "group_push groups key item = Inr groups'" "distinct (map fst groups)"
  shows "distinct (map fst groups')" and "set (map fst groups') = insert key (set (map fst groups))"
proof -
  show "distinct (map fst groups')"
    using assms
    by (auto simp: group_push_def distinct_update map_of_eq_None_iff
        split: option.splits if_splits)
  show "set (map fst groups') = insert key (set (map fst groups))"
  proof (cases "map_of groups key")
    case None
    then show ?thesis
      using assms(1) by (auto simp: group_push_def split: if_splits)
  next
    case (Some items)
    then have g': "groups' = AList.update key (items @ [item]) groups"
      using assms(1) by (simp add: group_push_def)
    have "set (map fst groups') = fst ` set groups'"
      by simp
    also have "\<dots> = {key} \<union> fst ` set groups"
      by (simp only: g' dom_update)
    finally show ?thesis by simp
  qed
qed

lemma group_rows_keys:
  "group_rows h config groups rows = Inr groups' \<Longrightarrow> distinct (map fst groups) \<Longrightarrow>
   \<exists>keys. map_e (group_key h config) rows = Inr keys \<and> distinct (map fst groups')
     \<and> set (map fst groups') = set (map fst groups) \<union> set keys"
proof (induction rows arbitrary: groups)
  case Nil
  then show ?case by simp
next
  case (Cons item rest)
  from Cons.prems(1) obtain key g1 where k: "group_key h config item = Inr key"
    and p: "group_push groups key item = Inr g1"
    and r: "group_rows h config g1 rest = Inr groups'"
    by (auto split: sum.splits)
  note gp = group_push_keys[OF p Cons.prems(2)]
  from Cons.IH[OF r gp(1)] obtain keys where ks: "map_e (group_key h config) rest = Inr keys"
    and d: "distinct (map fst groups')"
    and s: "set (map fst groups') = set (map fst g1) \<union> set keys"
    by blast
  have "map_e (group_key h config) (item # rest) = Inr (key # keys)"
    using k ks by simp
  moreover have "set (map fst groups') = set (map fst groups) \<union> set (key # keys)"
    using s gp(2) by auto
  ultimately show ?case using d by blast
qed

lemma transform_grouped_length:
  assumes "transform_grouped h config processed = Inr out"
  shows "length (labels out) = length (values_f out) \<and>
    (\<exists>keys. map_e (group_key h config) processed = Inr keys \<and> length (labels out) = card (set keys))"
proof -
  from assms obtain groups aggregated where g: "group_rows h config [] processed = Inr groups"
    and a: "map_e (aggregate_entry h config) (own_entries groups) = Inr aggregated"
    and o: "out = \<lparr>labels = map fst (sort_aggregated h aggregated),
                    values_f = map snd (sort_aggregated h aggregated)\<rparr>"
    by (auto simp: transform_grouped_def Let_def split: sum.splits)
  from group_rows_keys[OF g] obtain keys where ks: "map_e (group_key h config) processed = Inr keys"
    and d: "distinct (map fst groups)" and s: "set (map fst groups) = set keys"
    by auto
  have "length (labels out) = length groups"
    by (simp add: o sort_aggregated_def length_sort_by map_e_length[OF a] length_own_entries)
  also have "\<dots> = card (set keys)"
    using distinct_card[OF d] s by simp
  finally have "length (labels out) = card (set keys)" .
  then show ?thesis using ks by (simp add: o)
qed

lemma transform_plain_length:
  assumes "transform_plain h config processed = Inr out"
  shows "length (labels out) = length (values_f out) \<and> length (labels out) = length processed"
proof -
  from assms obtain ls vs where l: "map_e (x_label h config) processed = Inr ls"
    and v: "map_e (y_value h config) processed = Inr vs"
    and o: "out = \<lparr>labels = ls, values_f = vs\<rparr>"
    by (auto simp: transform_plain_def split: sum.splits)
  show ?thesis
    by (simp add: o map_e_length[OF l] map_e_length[OF v])
qed

lemma json_str_error:
  "json_str h j = Inl e \<Longrightarrow> e = TypeError"
  "json_elems h js = Inl e \<Longrightarrow> e = TypeError"
  by (induction h j and h js arbitrary: e and e rule: json_str_json_elems.induct)
     (auto split: if_splits sum.splits)

lemma ToString_error: "ToString h v = Inl e \<Longrightarrow> e = TypeError"
  by (cases v) (auto simp: ToString_def dest: json_str_error)

lemma filter_e_all:
  "\<forall>x\<in>set xs. \<exists>b. p x = Inr b \<Longrightarrow> filter_e p xs = Inr (filter (\<lambda>x. p x = Inr True) xs)"
  by (induction xs) auto

lemma filter_e_some_error:
  "x \<in> set xs \<Longrightarrow> p x = Inl TypeError \<Longrightarrow> \<forall>y e. p y = Inl e \<longrightarrow> e = TypeError \<Longrightarrow>
   filter_e p xs = Inl TypeError"
proof (induction xs)
  case Nil
  then show ?case by simp
next
  case (Cons a xs)
  show ?case
  proof (cases "p a")
    case (Inl e)
    then show ?thesis using Cons.prems(3) by auto
  next
    case (Inr b)
    then have "x \<in> set xs" using Cons.prems by auto
    from Cons.IH[OF this Cons.prems(2,3)] show ?thesis using Inr by simp
  qed
qed

lemma apply_filter_char:
  assumes "filter_f config = Some f"
  shows "apply_filter h config data =
     (if \<forall>r\<in>set data. stringifies h f r then Inr (filter (matches h f) data) else Inl TypeError)"
proof (cases "\<forall>r\<in>set data. stringifies h f r")
  case True
  then have all: "\<forall>r\<in>set data. \<exists>b. filter_pred h f r = Inr b"
    by (auto simp: stringifies_def filter_pred_def split: sum.splits)
  have "(\<lambda>r. filter_pred h f r = Inr True) = matches h f"
    by (auto simp: filter_pred_def matches_def fun_eq_iff split: sum.splits)
  then show ?thesis
    using filter_e_all[OF all] True assms by (simp add: apply_filter_def)
next
  case False
  then obtain r where r: "r \<in> set data" "\<not> stringifies h f r" by blast
  then have e1: "filter_pred h f r = Inl TypeError"
    by (auto simp: stringifies_def filter_pred_def split: sum.splits dest: ToString_error)
  have e2: "\<forall>y e. filter_pred h f y = Inl e \<longrightarrow> e = TypeError"
    by (auto simp: filter_pred_def split: sum.splits dest: ToString_error)
  have "filter_e (filter_pred h f) data = Inl TypeError"
    by (rule filter_e_some_error[OF r(1) e1 e2])
  then show ?thesis using False assms by (simp add: apply_filter_def)
qed

lemma group_rows_filter_update:
  "group_rows h (config\<lparr>filter_f := v\<rparr>) groups rows = group_rows h config groups rows"
  by (induction rows arbitrary: groups) (auto simp: group_key_def x_label_def split: sum.splits)

lemma transform_filter_update:
  "transform_grouped h (config\<lparr>filter_f := v\<rparr>) rows = transform_grouped h config rows"
  "transform_plain h (config\<lparr>filter_f := v\<rparr>) rows = transform_plain h config rows"
proof -
  have x: "x_label h (config\<lparr>filter_f := v\<rparr>) = x_label h config"
    by (auto simp: x_label_def fun_eq_iff)
  have y: "y_value h (config\<lparr>filter_f := v\<rparr>) = y_value h config"
    by (auto simp: y_value_def fun_eq_iff)
  have a: "aggregate_entry h (config\<lparr>filter_f := v\<rparr>) = aggregate_entry h config"
    by (simp add: aggregate_entry_def y fun_eq_iff cong: sum.case_cong)
  show "transform_grouped h (config\<lparr>filter_f := v\<rparr>) rows = transform_grouped h config rows"
    by (simp add: transform_grouped_def group_rows_filter_update a cong: sum.case_cong)
  show "transform_plain h (config\<lparr>filter_f := v\<rparr>) rows = transform_plain h config rows"
    by (simp add: transform_plain_def x y cong: sum.case_cong)
qed

lemma apply_filter_retained:
  assumes "apply_filter h config data = Inr processed"
  shows "processed = retained h config data"
proof (cases "filter_f config")
  case None
  then show ?thesis using assms by (simp add: apply_filter_def retained_def)
next
  case (Some f)
  show ?thesis
    using assms apply_filter_char[OF Some, of h data] Some
    by (simp add: retained_def split: if_splits)
qed

lemma apply_filter_returns:
  assumes "\<forall>r\<in>set data. readable h config r"
  shows "apply_filter h config data = Inr (retained h config data)"
proof (cases "filter_f config")
  case None
  then show ?thesis by (simp add: apply_filter_def retained_def)
next
  case (Some f)
  have "\<forall>r\<in>set data. stringifies h f r"
    using assms Some by (simp add: readable_def)
  then show ?thesis
    using apply_filter_char[OF Some, of h data] Some by (simp add: retained_def)
qed

lemma set_retained: "set (retained h config data) \<subseteq> set data"
  by (auto simp: retained_def split: option.splits)

lemma x_label_raw: "x_label h config r = Inr s \<Longrightarrow> s = raw_label h config r"
  by (auto simp: x_label_def raw_label_def Let_def split: if_splits)

lemma group_key_bucket: "group_key h config r = Inr k \<Longrightarrow> k = bucket_key h config r"
proof -
  assume a: "group_key h config r = Inr k"
  then obtain s where s: "x_label h config r = Inr s" and k: "k = bucket h (groupBy config) s"
    by (auto simp: group_key_def split: sum.splits)
  have r: "raw_label h config r = s" using x_label_raw[OF s] by simp
  show ?thesis
    unfolding k bucket_key_def r Let_def
    by (cases "groupBy config")
       (auto simp: bucket_def month_key_def year_key_def week_key_def
          split: option.splits GroupBy.splits)
qed

lemma x_label_returns: "has_string h (xField config) r \<Longrightarrow> \<exists>s. x_label h config r = Inr s"
  by (auto simp: has_string_def x_label_def Let_def split: sum.splits)

lemma y_value_returns: "has_string h (yField config) r \<Longrightarrow> \<exists>v. y_value h config r = Inr v"
  by (auto simp: has_string_def y_value_def split: sum.splits)

lemma group_key_returns:
  "has_string h (xField config) r \<Longrightarrow> group_key h config r = Inr (bucket_key h config r)"
proof -
  assume "has_string h (xField config) r"
  then obtain s where "x_label h config r = Inr s" using x_label_returns by blast
  then obtain k where k: "group_key h config r = Inr k" by (simp add: group_key_def)
  then show ?thesis using group_key_bucket[OF k] by simp
qed

lemma map_e_map:
  "map_e f xs = Inr ys \<Longrightarrow> (\<And>x y. x \<in> set xs \<Longrightarrow> f x = Inr y \<Longrightarrow> y = g x) \<Longrightarrow> ys = map g xs"
proof (induction xs arbitrary: ys)
  case Nil
  then show ?case by simp
next
  case (Cons x xs)
  from Cons.prems(1) obtain y ys' where y: "f x = Inr y" and r: "map_e f xs = Inr ys'"
    and ys: "ys = y # ys'"
    by (auto split: sum.splits)
  have "ys' = map g xs" using Cons.IH[OF r] Cons.prems(2) by simp
  moreover have "y = g x" using Cons.prems(2)[of x y] y by simp
  ultimately show ?case using ys by simp
qed

lemma map_e_total:
  "(\<And>x. x \<in> set xs \<Longrightarrow> \<exists>y. f x = Inr y) \<Longrightarrow> \<exists>ys. map_e f xs = Inr ys"
proof (induction xs)
  case Nil
  then show ?case by simp
next
  case (Cons x xs)
  obtain y where "f x = Inr y" using Cons.prems[of x] by auto
  moreover obtain ys where "map_e f xs = Inr ys" using Cons.IH Cons.prems by auto
  ultimately show ?case by simp
qed

lemma update_set: "kv \<in> set (AList.update k v al) \<Longrightarrow> kv = (k, v) \<or> kv \<in> set al"
  by (induction al) (auto split: if_splits)

lemma group_push_returns:
  assumes "key \<notin> set object_prototype_keys"
  shows "\<exists>g'. group_push groups key item = Inr g' \<and> rows_of g' \<subseteq> insert item (rows_of groups)"
proof (cases "map_of groups key")
  case None
  then show ?thesis using assms by (auto simp: group_push_def rows_of_def)
next
  case (Some items)
  then have m: "(key, items) \<in> set groups" by (rule map_of_SomeD)
  have "rows_of (AList.update key (items @ [item]) groups) \<subseteq> insert item (rows_of groups)"
  proof
    fix r
    assume "r \<in> rows_of (AList.update key (items @ [item]) groups)"
    then obtain kv where kv: "kv \<in> set (AList.update key (items @ [item]) groups)" and r: "r \<in> set (snd kv)"
      by (auto simp: rows_of_def)
    from update_set[OF kv] show "r \<in> insert item (rows_of groups)"
    proof
      assume "kv = (key, items @ [item])"
      then show ?thesis using r m by (force simp: rows_of_def)
    next
      assume "kv \<in> set groups"
      then show ?thesis using r by (auto simp: rows_of_def)
    qed
  qed
  then show ?thesis using Some by (simp add: group_push_def)
qed

lemma group_rows_returns:
  "\<forall>r\<in>set rows. \<exists>k. group_key h config r = Inr k \<and> k \<notin> set object_prototype_keys \<Longrightarrow>
   \<exists>g'. group_rows h config groups rows = Inr g' \<and> rows_of g' \<subseteq> set rows \<union> rows_of groups"
proof (induction rows arbitrary: groups)
  case Nil
  then show ?case by simp
next
  case (Cons item rest)
  obtain k where k: "group_key h config item = Inr k" "k \<notin> set object_prototype_keys"
    using Cons.prems by auto
  obtain g1 where g1: "group_push groups k item = Inr g1" "rows_of g1 \<subseteq> insert item (rows_of groups)"
    using group_push_returns[OF k(2)] by blast
  have "\<forall>r\<in>set rest. \<exists>k. group_key h config r = Inr k \<and> k \<notin> set object_prototype_keys"
    using Cons.prems by simp
  from Cons.IH[OF this, of g1] obtain g' where g': "group_rows h config g1 rest = Inr g'"
    "rows_of g' \<subseteq> set rest \<union> rows_of g1"
    by blast
  have "rows_of g' \<subseteq> set (item # rest) \<union> rows_of groups"
    using g'(2) g1(2) by auto
  then show ?case using k(1) g1(1) g'(1) by simp
qed

lemma aggregate_entry_returns:
  assumes "\<forall>r\<in>set (snd kv). has_string h (yField config) r"
  shows "\<exists>a. aggregate_entry h config kv = Inr a"
proof -
  obtain vs where "map_e (y_value h config) (snd kv) = Inr vs"
    using map_e_total[of "snd kv" "y_value h config"] y_value_returns assms by blast
  then show ?thesis by (simp add: aggregate_entry_def)
qed

lemma transform_grouped_returns:
  assumes "\<forall>r\<in>set rows. has_string h (xField config) r \<and> has_string h (yField config) r"
    and "\<forall>r\<in>set rows. bucket_key h config r \<notin> set object_prototype_keys"
  shows "\<exists>out. transform_grouped h config rows = Inr out"
proof -
  have "\<forall>r\<in>set rows. \<exists>k. group_key h config r = Inr k \<and> k \<notin> set object_prototype_keys"
    using assms group_key_returns by metis
  from group_rows_returns[OF this, of "[]"] obtain g where g: "group_rows h config [] rows = Inr g"
    and sub: "rows_of g \<subseteq> set rows"
    by (auto simp: rows_of_def)
  have "\<exists>a. aggregate_entry h config kv = Inr a" if "kv \<in> set (own_entries g)" for kv
  proof (rule aggregate_entry_returns)
    have "set (snd kv) \<subseteq> rows_of g" using that by (auto simp: set_own_entries rows_of_def)
    then show "\<forall>r\<in>set (snd kv). has_string h (yField config) r"
      using sub assms(1) by blast
  qed
  then obtain ag where "map_e (aggregate_entry h config) (own_entries g) = Inr ag"
    using map_e_total[of "own_entries g" "aggregate_entry h config"] by blast
  then show ?thesis using g by (simp add: transform_grouped_def Let_def)
qed

lemma transform_plain_returns:
  assumes "\<forall>r\<in>set rows. has_string h (xField config) r \<and> has_string h (yField config) r"
  shows "\<exists>vs. transform_plain h config rows
           = Inr \<lparr>labels = map (raw_label h config) rows, values_f = vs\<rparr>"
proof -
  obtain ls where ls: "map_e (x_label h config) rows = Inr ls"
    using map_e_total[of rows "x_label h config"] x_label_returns assms by blast
  have l: "ls = map (raw_label h config) rows"
    using map_e_map[OF ls] x_label_raw by blast
  obtain vs where "map_e (y_value h config) rows = Inr vs"
    using map_e_total[of rows "y_value h config"] y_value_returns assms by blast
  then show ?thesis using ls l by (simp add: transform_plain_def)
qed

lemma transformData_returns:
  assumes "\<forall>r\<in>set data. readable h config r"
    and "grouping config \<longrightarrow>
           (\<forall>r\<in>set (retained h config data). bucket_key h config r \<notin> set object_prototype_keys)"
  shows "\<exists>out. transformData h (Some data) (Some config) = Inr (Some out)"
proof -
  note f = apply_filter_returns[OF assms(1)]
  have rd: "\<forall>r\<in>set (retained h config data).
      has_string h (xField config) r \<and> has_string h (yField config) r"
    using assms(1) set_retained[of h config data] by (auto simp: readable_def)
  show ?thesis
  proof (cases "grouping config")
    case True
    then obtain out where "transform_grouped h config (retained h config data) = Inr out"
      using transform_grouped_returns[OF rd] assms(2) by blast
    then show ?thesis using f True by (simp add: transformData_def grouping_def)
  next
    case False
    obtain vs where "transform_plain h config (retained h config data)
        = Inr \<lparr>labels = map (raw_label h config) (retained h config data), values_f = vs\<rparr>"
      using transform_plain_returns[OF rd] by blast
    then show ?thesis using f False by (auto simp: transformData_def grouping_def)
  qed
qed

lemma transformData_lengths:
  assumes "transformData h (Some data) (Some config) = Inr (Some out)"
  shows "length (labels out) = length (values_f out)"
    and "length (labels out) =
      (if grouping config then card (bucket_key h config ` set (retained h config data))
       else length (retained h config data))"
proof -
  from assms obtain processed where f: "apply_filter h config data = Inr processed"
    by (auto simp: transformData_def split: sum.splits)
  note p = apply_filter_retained[OF f]
  have "length (labels out) = length (values_f out) \<and> length (labels out) =
      (if grouping config then card (bucket_key h config ` set (retained h config data))
       else length (retained h config data))"
  proof (cases "grouping config")
    case True
    then have "transform_grouped h config processed = Inr out"
      using assms f by (auto simp: transformData_def grouping_def split: sum.splits)
    from transform_grouped_length[OF this] obtain keys
      where l: "length (labels out) = length (values_f out)"
        and ks: "map_e (group_key h config) processed = Inr keys"
        and c: "length (labels out) = card (set keys)"
      by blast
    have "keys = map (bucket_key h config) processed"
      using map_e_map[OF ks] group_key_bucket by blast
    then show ?thesis using l c True p by simp
  next
    case False
    then have "transform_plain h config processed = Inr out"
      using assms f by (auto simp: transformData_def grouping_def split: sum.splits if_splits)
    from transform_plain_length[OF this] show ?thesis using False p by simp
  qed
  then show "length (labels out) = length (values_f out)"
    and "length (labels out) =
      (if grouping config then card (bucket_key h config ` set (retained h config data))
       else length (retained h config data))"
    by blast+
qed

subsection \<open>Lengths\<close>

text \<open>
  C8. Whenever the transform returns an output, its labels and its values are equally
  many; on the grouped path (a bucket and an x-field are set) their number is the number
  of distinct bucket keys of the rows retained after filtering, otherwise it is the
  number of those rows. The retained rows and the bucket keys are those of the
  specification. The transform does return an output when \<open>String\<close> throws on none of the
  values it reads and, on the grouped path, no bucket key of a retained row names a
  member of \<open>Object.prototype\<close>.
\<close>

theorem output_lengths:
  "((\<forall>r\<in>set data. readable h config r) \<and>
    (grouping config \<longrightarrow>
       (\<forall>r\<in>set (retained h config data). bucket_key h config r \<notin> set object_prototype_keys))
    \<longrightarrow> (\<exists>out. transformData h (Some data) (Some config) = Inr (Some out)))
   \<and> (\<forall>out. transformData h (Some data) (Some config) = Inr (Some out) \<longrightarrow>
         length (labels out) = length (values_f out) \<and>
         length (labels out) =
           (if grouping config then card (bucket_key h config ` set (retained h config data))
            else length (retained h config data)))"
  using transformData_returns[of data h config] transformData_lengths[of h data config]
  by blast

lemma north_config_resolved:
  "generateChartConfig (Some region_schema)
     ''bar chart of revenue by date by month where region = north'' = Inr north_config"
  by code_simp

lemma north_example:
  "transformData (zone_host 0) (Some region_rows) (Some north_config)
     = Inr (Some \<lparr>labels = [''2024-01'', ''2024-02''], values_f = [Fin 30, Fin 7]\<rparr>)"
  by code_simp

lemma north_retained:
  "retained (zone_host 0) north_config region_rows
     = [row_north_jan_1, row_north_jan_15, row_north_feb_10]"
  by code_simp

lemma north_keys:
  "map (bucket_key (zone_host 0) north_config) [row_north_jan_1, row_north_jan_15, row_north_feb_10]
     = [''2024-01'', ''2024-01'', ''2024-02'']"
  by code_simp

lemma north_readable: "\<forall>r\<in>set region_rows. readable (zone_host 0) north_config r"
  by code_simp

lemma status_example:
  "transformData (zone_host 0) (Some status_rows) (Some (status_config ''active''))
     = Inr (Some \<lparr>labels = [''Active''], values_f = [Fin 10]\<rparr>)"
  by code_simp

lemma status_retained:
  "retained (zone_host 0) (status_config ''active'') status_rows = [row_active]"
  by code_simp

theorem output_lengths_witness:
  "transformData (zone_host 0) (Some region_rows) (Some north_config)
     = Inr (Some \<lparr>labels = [''2024-01'', ''2024-02''], values_f = [Fin 30, Fin 7]\<rparr>)
   \<and> grouping north_config
   \<and> length (retained (zone_host 0) north_config region_rows) = 3
   \<and> card (bucket_key (zone_host 0) north_config
             ` set (retained (zone_host 0) north_config region_rows)) = 2
   \<and> transformData (zone_host 0) (Some status_rows) (Some (status_config ''active''))
     = Inr (Some \<lparr>labels = [''Active''], values_f = [Fin 10]\<rparr>)
   \<and> \<not> grouping (status_config ''active'')
   \<and> length (retained (zone_host 0) (status_config ''active'') status_rows) = 1"
proof -
  have g: "grouping north_config"
    by (simp add: grouping_def north_config_def)
  have p: "\<not> grouping (status_config ''active'')"
    by (simp add: grouping_def status_config_def)
  have k: "bucket_key (zone_host 0) north_config
      ` set (retained (zone_host 0) north_config region_rows) = {''2024-01'', ''2024-02''}"
    using north_keys by (simp add: north_retained)
  show ?thesis
    using output_lengths[of region_rows "zone_host 0" north_config]
      output_lengths[of status_rows "zone_host 0" "status_config ''active''"]
      north_example status_example north_readable g p
    by (simp add: north_retained status_retained k)
qed

subsection \<open>The filter\<close>

lemma lower_undefined: "toLowerCase ''undefined'' = ''undefined''"
  by code_simp

lemma absent_field_matches:
  assumes "map_of r (field f) = None" "field f \<notin> set object_prototype_keys"
  shows "matches h f r \<longleftrightarrow> toLowerCase (fvalue f) = ''undefined''"
  using assms by (auto simp: matches_def get_prop_def ToString_def lower_undefined)

text \<open>
  C3, as amended. Take a configuration with a filter and rows whose filter-field values
  all have a string. The filter step keeps exactly the rows whose value, stringified
  and lower-cased, equals the lower-cased filter value, and the transform is the
  transform of those rows without a filter; on the path without grouping, when the
  x- and y-values have strings, it returns their labels, one for each kept row and in
  their order. A row without the filter field (the field not naming a member of
  \<open>Object.prototype\<close>) reads as \<open>undefined\<close>: it is kept exactly when the lower-cased filter
  value is \<open>undefined\<close>, and dropped otherwise.
\<close>

theorem filter_keeps_matching_rows:
  assumes "filter_f config = Some f" and "\<forall>r\<in>set data. stringifies h f r"
  shows "apply_filter h config data = Inr (filter (matches h f) data)
     \<and> transformData h (Some data) (Some config) =
         transformData h (Some (filter (matches h f) data)) (Some (config\<lparr>filter_f := None\<rparr>))
     \<and> ((\<forall>r\<in>set data. has_string h (xField config) r \<and> has_string h (yField config) r) \<longrightarrow>
          \<not> grouping config \<longrightarrow>
          (\<exists>out. transformData h (Some data) (Some config) = Inr (Some out)
             \<and> labels out = map (raw_label h config) (filter (matches h f) data)))
     \<and> (\<forall>r\<in>set data. map_of r (field f) = None \<longrightarrow> field f \<notin> set object_prototype_keys \<longrightarrow>
          (r \<in> set (filter (matches h f) data) \<longleftrightarrow> toLowerCase (fvalue f) = ''undefined''))"
proof -
  have c: "apply_filter h config data = Inr (filter (matches h f) data)"
    using apply_filter_char[OF assms(1), of h data] assms(2) by simp
  have t: "transformData h (Some data) (Some config) =
      transformData h (Some (filter (matches h f) data)) (Some (config\<lparr>filter_f := None\<rparr>))"
    using c by (simp add: transformData_def apply_filter_def transform_filter_update)
  have p: "\<exists>out. transformData h (Some data) (Some config) = Inr (Some out)
             \<and> labels out = map (raw_label h config) (filter (matches h f) data)"
    if r: "\<forall>r\<in>set data. has_string h (xField config) r \<and> has_string h (yField config) r"
      and g: "\<not> grouping config"
  proof -
    have "\<forall>r\<in>set (filter (matches h f) data).
        has_string h (xField config) r \<and> has_string h (yField config) r"
      using r by simp
    from transform_plain_returns[OF this] obtain vs where
      "transform_plain h config (filter (matches h f) data)
         = Inr \<lparr>labels = map (raw_label h config) (filter (matches h f) data), values_f = vs\<rparr>"
      by blast
    then show ?thesis using c g by (auto simp: transformData_def grouping_def)
  qed
  have a: "r \<in> set (filter (matches h f) data) \<longleftrightarrow> toLowerCase (fvalue f) = ''undefined''"
    if "r \<in> set data" "map_of r (field f) = None" "field f \<notin> set object_prototype_keys" for r
    using that absent_field_matches[of r f h] by simp
  show ?thesis
    using c t p a by (intro conjI impI ballI) blast+
qed

lemma status_rows_stringify:
  "\<forall>r\<in>set status_rows. stringifies (zone_host 0) (status_filter ''active'') r"
  by code_simp

lemma status_rows_active:
  "filter (matches (zone_host 0) (status_filter ''active'')) status_rows = [row_active]"
  by code_simp

theorem filter_keeps_matching_rows_witness:
  "filter_f (status_config ''active'') = Some (status_filter ''active'')
   \<and> \<not> grouping (status_config ''active'')
   \<and> filter (matches (zone_host 0) (status_filter ''active'')) status_rows = [row_active]
   \<and> apply_filter (zone_host 0) (status_config ''active'') status_rows = Inr [row_active]
   \<and> transformData (zone_host 0) (Some status_rows) (Some (status_config ''active''))
       = Inr (Some \<lparr>labels = [''Active''], values_f = [Fin 10]\<rparr>)
   \<and> map_of row_no_status ''status'' = None
   \<and> row_no_status \<notin> set [row_active]
   \<and> toLowerCase ''active'' \<noteq> ''undefined''"
proof -
  have f: "filter_f (status_config ''active'') = Some (status_filter ''active'')"
    by (simp add: status_config_def)
  have p: "\<not> grouping (status_config ''active'')"
    by (simp add: grouping_def status_config_def)
  have n: "map_of row_no_status ''status'' = None \<and> row_no_status \<notin> set [row_active]
     \<and> toLowerCase ''active'' \<noteq> ''undefined''"
    by code_simp
  show ?thesis
    using filter_keeps_matching_rows[OF f status_rows_stringify] status_example f p n
    by (simp add: status_rows_active)
qed

lemma undefined_config_resolved:
  "generateChartConfig (Some status_schema) ''revenue where status = undefined''
     = Inr (status_config ''undefined'')"
  by code_simp

text \<open>
  C3 as stated fails: with the filter value \<open>undefined\<close> the row without the filter
  field is kept, and it is the only row kept.
\<close>

theorem filter_keeps_matching_rows_counterexample:
  "map_of row_no_status ''status'' = None \<and>
   transformData (zone_host 0) (Some status_rows) (Some (status_config ''undefined''))
     = Inr (Some \<lparr>labels = [[]], values_f = [Fin 7]\<rparr>)"
  by code_simp

subsection \<open>Defaults and exceptions\<close>

lemma no_rows_no_output:
  "apply_filter h config data = Inr [] \<Longrightarrow>
   transformData h (Some data) (Some config) = Inr (Some \<lparr>labels = [], values_f = []\<rparr>)"
  by (simp add: transformData_def transform_grouped_def transform_plain_def own_entries_def
      sort_aggregated_def)

lemma absent_x_label:
  "map_of item (xField config) = None \<Longrightarrow> xField config \<notin> set object_prototype_keys \<Longrightarrow>
   x_label h config item = Inr []"
  by (simp add: x_label_def get_prop_def truthy_def)

lemma unparseable_y_value:
  "ToString h (get_prop item (yField config)) = Inr s \<Longrightarrow> parseFloat h s = NaN \<Longrightarrow>
   y_value h config item = Inr (Fin 0)"
  by (simp add: y_value_def or_zero_def)

lemma day_config_resolved:
  "generateChartConfig (Some calls_schema) ''bar chart of calls by name by day'' = Inr day_config"
  by code_simp

text \<open>
  C7, that the transform never raises, does not hold of the code: the transform throws
  on a row whose bucket key names a member of \<open>Object.prototype\<close>. For the key \<open>constructor\<close> the read \<open>groups[key]\<close> on the
  empty dictionary finds the inherited constructor, which is truthy, so no array is
  stored, and \<open>groups[key].push(item)\<close> is a \<open>TypeError\<close>.
\<close>

theorem transform_throws_on_prototype_key:
  "transformData h (Some calls_rows) (Some day_config) = Inl TypeError"
  by (simp add: transformData_def calls_rows_def day_config_def apply_filter_def
      transform_grouped_def group_key_def x_label_def get_prop_def truthy_def ToString_def
      bucket_def group_push_def object_prototype_keys_def)

subsection \<open>The month example\<close>

lemma month_config_resolved:
  "generateChartConfig (Some revenue_schema) ''bar chart of revenue by month'' = Inr month_config"
  by code_simp

lemma month_example_utc:
  "transformData (zone_host 0) (Some revenue_rows) (Some month_config)
     = Inr (Some \<lparr>labels = [''2024-01'', ''2024-02''], values_f = [Fin 30, Fin 5]\<rparr>)"
  by code_simp

lemma local_date_midnight:
  assumes "0 \<le> localTZA h t" "localTZA h t < 86400000" "t mod 86400000 = 0"
  shows "local_date h t = civil_from_days (t div 86400000)"
proof -
  from assms(3) obtain d where t: "t = d * 86400000"
    by (metis mod_eq_0_iff_dvd dvd_def mult.commute)
  have "(d * 86400000 + localTZA h t) div 86400000 = d"
    using assms(1,2) by simp
  then have "(t + localTZA h t) div 86400000 = t div 86400000"
    by (simp add: t)
  then show ?thesis by (simp add: local_date_def)
qed

lemma month_key_civil:
  "local_date h t = (y, m, d) \<Longrightarrow> month_key h t = int_str y @ ''-'' @ padStart2 (int_str m)"
  by (simp add: month_key_def getFullYear_def getMonth_def)

lemma parse_jan_1: "Date_parse h ''2024-01-01'' = Some 1704067200000"
  by code_simp

lemma parse_jan_15: "Date_parse h ''2024-01-15'' = Some 1705276800000"
  by code_simp

lemma parse_feb_1: "Date_parse h ''2024-02-01'' = Some 1706745600000"
  by code_simp

lemma civil_jan_1: "civil_from_days (1704067200000 div 86400000) = (2024, 1, 1)"
  by code_simp

lemma civil_jan_15: "civil_from_days (1705276800000 div 86400000) = (2024, 1, 15)"
  by code_simp

lemma civil_feb_1: "civil_from_days (1706745600000 div 86400000) = (2024, 2, 1)"
  by code_simp

lemma key_jan: "int_str 2024 @ ''-'' @ padStart2 (int_str 1) = ''2024-01''"
  by code_simp

lemma key_feb: "int_str 2024 @ ''-'' @ padStart2 (int_str 2) = ''2024-02''"
  by code_simp

lemma month_keys_east:
  assumes "east_of_utc h"
  shows "month_key h 1704067200000 = ''2024-01''"
    and "month_key h 1705276800000 = ''2024-01''"
    and "month_key h 1706745600000 = ''2024-02''"
proof -
  have tz: "0 \<le> localTZA h t" "localTZA h t < 86400000" for t
    using assms by (simp_all add: east_of_utc_def)
  have "local_date h 1704067200000 = (2024, 1, 1)"
    using local_date_midnight[OF tz, of 1704067200000] by (simp only: civil_jan_1) simp
  then show "month_key h 1704067200000 = ''2024-01''"
    by (simp only: month_key_civil key_jan)
  have "local_date h 1705276800000 = (2024, 1, 15)"
    using local_date_midnight[OF tz, of 1705276800000] by (simp only: civil_jan_15) simp
  then show "month_key h 1705276800000 = ''2024-01''"
    by (simp only: month_key_civil key_jan)
  have "local_date h 1706745600000 = (2024, 2, 1)"
    using local_date_midnight[OF tz, of 1706745600000] by (simp only: civil_feb_1) simp
  then show "month_key h 1706745600000 = ''2024-02''"
    by (simp only: month_key_civil key_feb)
qed

lemma labels_of_rows:
  "map_e (x_label h month_config) revenue_rows = Inr [''2024-01-01'', ''2024-01-15'', ''2024-02-01'']"
  by code_simp

lemma group_keys_east:
  assumes "east_of_utc h"
  shows "group_key h month_config row_jan_1 = Inr ''2024-01''"
    and "group_key h month_config row_jan_15 = Inr ''2024-01''"
    and "group_key h month_config row_feb_1 = Inr ''2024-02''"
proof -
  have x: "x_label h month_config row_jan_1 = Inr ''2024-01-01''"
    "x_label h month_config row_jan_15 = Inr ''2024-01-15''"
    "x_label h month_config row_feb_1 = Inr ''2024-02-01''"
    by code_simp+
  have g: "groupBy month_config = Some Month" by (simp add: month_config_def)
  show "group_key h month_config row_jan_1 = Inr ''2024-01''"
    by (simp add: group_key_def x g bucket_def parse_jan_1 month_keys_east[OF assms])
  show "group_key h month_config row_jan_15 = Inr ''2024-01''"
    by (simp add: group_key_def x g bucket_def parse_jan_15 month_keys_east[OF assms])
  show "group_key h month_config row_feb_1 = Inr ''2024-02''"
    by (simp add: group_key_def x g bucket_def parse_feb_1 month_keys_east[OF assms])
qed

lemma groups_east:
  assumes "east_of_utc h"
  shows "group_rows h month_config [] revenue_rows =
     Inr [(''2024-01'', [row_jan_1, row_jan_15]), (''2024-02'', [row_feb_1])]"
proof -
  show ?thesis
    by (simp add: revenue_rows_def group_keys_east[OF assms] group_push_def
        object_prototype_keys_def)
qed

lemma aggregated_months:
  "map_e (aggregate_entry h month_config)
     (own_entries [(''2024-01'', [row_jan_1, row_jan_15]), (''2024-02'', [row_feb_1])])
   = Inr [(''2024-01'', Fin 30), (''2024-02'', Fin 5)]"
  by code_simp

text \<open>
  Where local time is UTC or ahead of it, and the collation puts \<open>2024-01\<close> before
  \<open>2024-02\<close>, the example gives the labels and values of the specification.
\<close>

lemma month_example_east_of_utc:
  assumes "east_of_utc h" and "collate h ''2024-01'' ''2024-02'' \<le> 0"
  shows "transformData h (Some revenue_rows) (Some month_config)
     = Inr (Some \<lparr>labels = [''2024-01'', ''2024-02''], values_f = [Fin 30, Fin 5]\<rparr>)"
proof -
  have s: "sort_aggregated h [(''2024-01'', Fin 30), (''2024-02'', Fin 5)]
      = [(''2024-01'', Fin 30), (''2024-02'', Fin 5)]"
    using assms(2) by (simp add: sort_aggregated_def)
  have f: "apply_filter h month_config revenue_rows = Inr revenue_rows"
    by (simp add: apply_filter_def month_config_def)
  have c: "groupBy month_config \<noteq> None \<and> xField month_config \<noteq> []"
    by (simp add: month_config_def)
  have "transform_grouped h month_config revenue_rows
     = Inr \<lparr>labels = [''2024-01'', ''2024-02''], values_f = [Fin 30, Fin 5]\<rparr>"
    by (simp add: transform_grouped_def groups_east[OF assms(1)] aggregated_months s)
  then show ?thesis
    using f c by (simp add: transformData_def)
qed

text \<open>
  C4, that the month example yields the labels \<open>2024-01\<close>, \<open>2024-02\<close> and the values 30,
  5, does not hold of the code where local time is behind UTC. \<open>new Date("2024-01-01")\<close>
  is midnight UTC, and \<open>getFullYear\<close> and \<open>getMonth\<close> read it in local time: five hours
  behind UTC it is 19:00 on 31 December 2023. The rows of the first of each month fall
  into the month before, and the transform of the example yields the labels
  \<open>2023-12\<close>, \<open>2024-01\<close> and the values 10, 25.
\<close>

theorem month_example_west_of_utc:
  "transformData (zone_host (- 300)) (Some revenue_rows) (Some month_config)
     = Inr (Some \<lparr>labels = [''2023-12'', ''2024-01''], values_f = [Fin 10, Fin 25]\<rparr>)"
  by code_simp

section \<open>The generated component against the preview\<close>

lemma plain_config_resolved:
  "generateChartConfig (Some revenue_schema) ''line chart of revenue over time'' = Inr plain_config"
  by code_simp

lemma generated_agrees_on_month_example:
  "generated_component (zone_host 0) month_config revenue_rows
     = Inr (Some \<lparr>labels = [''2024-01'', ''2024-02''], values_f = [Fin 30, Fin 5]\<rparr>)"
  by code_simp

text \<open>
  C1, that the generated component and the preview yield the same labels and values
  on the same rows, does not hold of the code: the template leaves out two guards of the
  preview. The
  preview labels a row by \<open>String(item[xField] || '')\<close> and keeps the raw key when the date
  is invalid; the generated component labels by \<open>String(d.xField)\<close> and formats the getters
  of the invalid date. On a row without the x-field the preview's label is the empty
  string and the component's is \<open>undefined\<close>; on a row whose date does not parse, grouped
  by month, the preview's label is the raw string and the component's is \<open>NaN-NaN\<close>.
\<close>

theorem generated_differs_from_preview:
  "transformData (zone_host 0) (Some [row_no_date]) (Some plain_config)
     = Inr (Some \<lparr>labels = [[]], values_f = [Fin 10]\<rparr>)
   \<and> generated_component (zone_host 0) plain_config [row_no_date]
     = Inr (Some \<lparr>labels = [''undefined''], values_f = [Fin 10]\<rparr>)
   \<and> transformData (zone_host 0) (Some [row_bad_date]) (Some month_config)
     = Inr (Some \<lparr>labels = [''n/a''], values_f = [Fin 10]\<rparr>)
   \<and> generated_component (zone_host 0) month_config [row_bad_date]
     = Inr (Some \<lparr>labels = [''NaN-NaN''], values_f = [Fin 10]\<rparr>)"
  by code_simp

end
